theory Spec2Isabelle
  imports Main "HOL-Library.Sublist" "HOL-Library.AList"
begin

section \<open>Python strings\<close>

text \<open>
  A Python \<^verbatim>\<open>str\<close> is modelled as a \<^typ>\<open>string\<close>, a list of characters.
  The model covers ASCII text: \<^verbatim>\<open>lower()\<close> maps \<^verbatim>\<open>A..Z\<close> to \<^verbatim>\<open>a..z\<close>,
  \<^verbatim>\<open>strip()\<close> removes ASCII white space, and the regular expression classes
  \<^verbatim>\<open>\d\<close>, \<^verbatim>\<open>[A-Z]\<close> and \<^verbatim>\<open>[a-z]\<close> are the ASCII ones.
\<close>

definition is_upper :: "char \<Rightarrow> bool" where
  "is_upper c = (c \<in> set ''ABCDEFGHIJKLMNOPQRSTUVWXYZ'')"

definition is_lower :: "char \<Rightarrow> bool" where
  "is_lower c = (c \<in> set ''abcdefghijklmnopqrstuvwxyz'')"

definition is_digit :: "char \<Rightarrow> bool" where
  "is_digit c = (c \<in> set ''0123456789'')"

definition is_space :: "char \<Rightarrow> bool" where
  "is_space c = (c \<in> set [CHR 0x09, CHR 0x0A, CHR 0x0B, CHR 0x0C, CHR 0x0D,
                            CHR 0x1C, CHR 0x1D, CHR 0x1E, CHR 0x1F, CHR '' ''])"

definition lower_char :: "char \<Rightarrow> char" where
  "lower_char c =
     (case map_of (zip ''ABCDEFGHIJKLMNOPQRSTUVWXYZ'' ''abcdefghijklmnopqrstuvwxyz'') c of
        None \<Rightarrow> c
      | Some l \<Rightarrow> l)"

text \<open>\<^verbatim>\<open>s.lower()\<close>\<close>

definition lower :: "string \<Rightarrow> string" where
  "lower s = map lower_char s"

text \<open>\<^verbatim>\<open>s.strip()\<close>\<close>

definition strip :: "string \<Rightarrow> string" where
  "strip s = rev (dropWhile is_space (rev (dropWhile is_space s)))"

text \<open>\<^verbatim>\<open>sub in s\<close>: \<open>sub\<close> occurs in \<open>s\<close> as a contiguous substring.\<close>

fun str_in :: "string \<Rightarrow> string \<Rightarrow> bool" where
  "str_in sub [] = (sub = [])"
| "str_in sub (c # cs) = (prefix sub (c # cs) \<or> str_in sub cs)"

text \<open>
  \<^verbatim>\<open>s.replace(old, new)\<close> for a non-empty \<open>old\<close>: the occurrences are found from
  the left and do not overlap. Every call in the sources has a non-empty literal
  \<open>old\<close>; for an empty one the model returns \<open>s\<close>.
\<close>

function replace :: "string \<Rightarrow> string \<Rightarrow> string \<Rightarrow> string" where
  "replace old new [] = []"
| "replace old new (c # cs) =
     (if old \<noteq> [] \<and> prefix old (c # cs)
      then new @ replace old new (drop (length old) (c # cs))
      else c # replace old new cs)"
  by pat_completeness auto
termination
  by (relation "measure (\<lambda>(old, new, s). length s)") (auto simp: Suc_le_eq)

text \<open>
  \<^verbatim>\<open>s.split(sep)\<close> for a one-character separator: the result is never empty, and
  a string without the separator is returned as its only element.
\<close>

fun split :: "char \<Rightarrow> string \<Rightarrow> string list" where
  "split sep [] = [[]]"
| "split sep (c # cs) =
     (if c = sep then [] # split sep cs
      else (case split sep cs of
              [] \<Rightarrow> [[c]]
            | w # ws \<Rightarrow> (c # w) # ws))"

text \<open>\<^verbatim>\<open>sep.join(parts)\<close>\<close>

fun join :: "string \<Rightarrow> string list \<Rightarrow> string" where
  "join sep [] = []"
| "join sep [w] = w"
| "join sep (w # ws) = w @ sep @ join sep ws"

text \<open>
  \<^verbatim>\<open>re.sub(pattern, repl, s)\<close>: the string is scanned from the left; where the
  pattern matches, the replacement is written and the scan goes on after the match,
  elsewhere one character is copied. A pattern is given by its matcher, which for a
  match at the start of its argument returns the replacement text and the rest of the
  string. Every pattern of the sources matches two characters or more; the length test
  makes the scan total for any matcher.
\<close>

function re_sub :: "(string \<Rightarrow> (string \<times> string) option) \<Rightarrow> string \<Rightarrow> string" where
  "re_sub m [] = []"
| "re_sub m (c # cs) =
     (case m (c # cs) of
        None \<Rightarrow> c # re_sub m cs
      | Some (out, rest) \<Rightarrow>
          if length rest < length (c # cs) then out @ re_sub m rest
          else c # re_sub m cs)"
  by pat_completeness auto
termination
  by (relation "measure (\<lambda>(m, s). length s)") auto

text \<open>The pattern \<^verbatim>\<open>_v\d+\<close>, replaced by the empty string.\<close>

fun version_suffix :: "string \<Rightarrow> (string \<times> string) option" where
  "version_suffix (a # b # d # rest) =
     (if a = CHR ''_'' \<and> b = CHR ''v'' \<and> is_digit d
      then Some ([], dropWhile is_digit rest) else None)"
| "version_suffix s = None"

text \<open>The pattern \<^verbatim>\<open>(.)([A-Z][a-z]+)\<close>, replaced by \<^verbatim>\<open>\1_\2\<close>.\<close>

fun capitalised_word :: "string \<Rightarrow> (string \<times> string) option" where
  "capitalised_word (a # u # l # rest) =
     (if a \<noteq> CHR 0x0A \<and> is_upper u \<and> is_lower l
      then Some (a # CHR ''_'' # u # l # takeWhile is_lower rest, dropWhile is_lower rest)
      else None)"
| "capitalised_word s = None"

text \<open>The pattern \<^verbatim>\<open>([a-z0-9])([A-Z])\<close>, replaced by \<^verbatim>\<open>\1_\2\<close>.\<close>

fun lower_then_upper :: "string \<Rightarrow> (string \<times> string) option" where
  "lower_then_upper (a # u # rest) =
     (if (is_lower a \<or> is_digit a) \<and> is_upper u
      then Some ([a, CHR ''_'', u], rest) else None)"
| "lower_then_upper s = None"

text \<open>The pattern \<^verbatim>\<open>__+\<close>, replaced by one underscore.\<close>

fun underscores :: "string \<Rightarrow> (string \<times> string) option" where
  "underscores (a # b # rest) =
     (if a = CHR ''_'' \<and> b = CHR ''_''
      then Some (''_'', dropWhile (\<lambda>c. c = CHR ''_'') rest) else None)"
| "underscores s = None"

section \<open>The literal-definition script (TestSchema.py)\<close>

text \<open>
  Two scripts of the repository define functions and classes of the same names. The
  names of \<^verbatim>\<open>data_dictionaries_schema.py\<close> are kept as they are; those of
  \<^verbatim>\<open>TestSchema.py\<close> that would clash carry the suffix \<open>_ts\<close>.
\<close>

text \<open>\<^verbatim>\<open>get_table_type\<close>, \<^verbatim>\<open>normalize_table_name\<close>, \<^verbatim>\<open>normalize_column_name\<close>,
  \<^verbatim>\<open>normalize_data_type\<close> and \<^verbatim>\<open>assign_domain\<close> of TestSchema.py.\<close>

definition get_table_type :: "string \<Rightarrow> string" where
  "get_table_type table_name =
     (if str_in ''_enriched'' (lower table_name) then ''ENRICHED'' else ''RAW'')"

definition normalize_table_name_ts :: "string \<Rightarrow> string" where
  "normalize_table_name_ts table_name =
     (let name = lower table_name;
          name = re_sub version_suffix name;
          name = replace ''_enriched'' [] name;
          name = replace ''.'' ''_'' name
      in name)"

definition normalize_column_name_ts :: "string \<Rightarrow> string" where
  "normalize_column_name_ts column_name =
     (let name = strip column_name;
          s1 = re_sub capitalised_word name;
          s2 = re_sub lower_then_upper s1;
          name = lower s2;
          name = re_sub underscores name
      in name)"

definition normalize_data_type_ts :: "string \<Rightarrow> string" where
  "normalize_data_type_ts data_type =
     (case map_of [(''bigint'', ''integer''), (''int'', ''integer''), (''varchar'', ''string''),
                   (''decimal'', ''decimal''), (''timestamp'', ''datetime''), (''date'', ''date'')]
             (lower data_type) of
        Some t \<Rightarrow> t
      | None \<Rightarrow> ''string'')"

definition assign_domain :: "string \<Rightarrow> string" where
  "assign_domain table_name =
     (if str_in ''financial'' (lower table_name) then ''Finance''
      else if str_in ''account'' (lower table_name) then ''Account''
      else ''General'')"

section \<open>The normalizers of data_dictionaries_schema.py\<close>

definition TARGET_TABLES :: "string list" where
  "TARGET_TABLES =
     [''deposits'', ''deposits_enriched'', ''ledger_account_balances_v1'',
      ''ledger_lines_enriched'', ''verification_attempt'',
      ''verified_user_details'', ''withdrawals'', ''worldpay_transactions'']"

text \<open>
  The loop of \<^verbatim>\<open>normalize_table_name\<close> over the target tables: the first target that
  occurs in \<open>name\<close> is returned without its \<^verbatim>\<open>_v1\<close> and \<^verbatim>\<open>_enriched\<close>; \<open>None\<close> when
  the loop ends without a \<^verbatim>\<open>return\<close>.
\<close>

fun match_target :: "string \<Rightarrow> string list \<Rightarrow> string option" where
  "match_target name [] = None"
| "match_target name (target # targets) =
     (if str_in target name
      then Some (replace ''_enriched'' [] (replace ''_v1'' [] target))
      else match_target name targets)"

definition normalize_table_name :: "string \<Rightarrow> string" where
  "normalize_table_name phys_name =
     (let name = replace [CHR 0x22] [] (lower phys_name);
          name = (if str_in ''.'' name then last (split CHR ''.'' name) else name)
      in case match_target name TARGET_TABLES of
           Some clean \<Rightarrow> clean
         | None \<Rightarrow> replace ''.'' ''_'' name)"

definition normalize_column_name :: "string \<Rightarrow> string" where
  "normalize_column_name column_name = lower (strip column_name)"

text \<open>
  \<^verbatim>\<open>normalize_data_type\<close> receives the cell of the data frame; its argument here is
  \<^verbatim>\<open>str(data_type)\<close>, the text of that cell.
\<close>

definition normalize_data_type :: "string \<Rightarrow> string" where
  "normalize_data_type data_type =
     (case map_of [(''bigint'', ''integer''), (''int'', ''integer''), (''varchar'', ''string''),
                   (''decimal'', ''decimal'')]
             (lower data_type) of
        Some t \<Rightarrow> t
      | None \<Rightarrow> ''string'')"

section \<open>The schema classes\<close>

record ColumnSchema_ts =
  name :: string
  data_type :: string
  description :: string

record TableSchema_ts =
  table_name :: string
  physical_name :: string
  table_type :: string
  domain :: string
  columns :: "ColumnSchema_ts list"
  description :: string

record RelationshipSchema =
  source_table :: string
  source_column :: string
  target_table :: string
  target_column :: string
  relationship_type :: string
  description :: string

record MetadataSchema_ts =
  tables :: "TableSchema_ts list"
  relationships :: "RelationshipSchema list"

text \<open>The classes of \<^verbatim>\<open>data_dictionaries_schema.py\<close>.\<close>

record ColumnSchema =
  name :: string
  data_type :: string
  canonical_id :: string
  is_primary_key :: bool
  is_foreign_key :: bool
  description :: string

record TableSchema =
  table_name :: string
  physical_name :: string
  table_type :: string
  domain :: string
  columns :: "ColumnSchema list"
  canonical_id :: string
  description :: string

record MetadataSchema =
  tables :: "TableSchema list"
  relationships :: "RelationshipSchema list"

section \<open>Relationship discovery (data_dictionaries_schema.py)\<close>

text \<open>
  \<^verbatim>\<open>discover_relationships\<close> sets \<^verbatim>\<open>col.is_foreign_key\<close> in place while it collects the
  relationships, so the model passes the state along: each loop takes the column under
  inspection and the relationships appended so far and returns both. Tables and columns
  are values: every column belongs to one table, as the builder creates them. The list
  \<^verbatim>\<open>master_table_ids\<close> of the source is computed and never read; it is left out.
\<close>

text \<open>The test of the innermost \<^verbatim>\<open>if\<close>.\<close>

definition linked :: "ColumnSchema \<Rightarrow> ColumnSchema \<Rightarrow> bool" where
  "linked col target_col =
     (ColumnSchema.name col = ColumnSchema.name target_col \<and> str_in ''id'' (ColumnSchema.name col))"

text \<open>The relationship appended on a match.\<close>

definition link :: "TableSchema \<Rightarrow> ColumnSchema \<Rightarrow> TableSchema \<Rightarrow> ColumnSchema \<Rightarrow> RelationshipSchema" where
  "link src col tgt target_col =
     \<lparr>source_table = TableSchema.canonical_id src,
      source_column = ColumnSchema.canonical_id col,
      target_table = TableSchema.canonical_id tgt,
      target_column = ColumnSchema.canonical_id target_col,
      relationship_type = ''linked_by_id'',
      description = ''Auto-detected link via '' @ ColumnSchema.name col\<rparr>"

text \<open>\<^verbatim>\<open>for target_col in target_table.columns\<close>\<close>

fun scan_target_columns ::
  "TableSchema \<Rightarrow> TableSchema \<Rightarrow> ColumnSchema list
     \<Rightarrow> ColumnSchema \<times> RelationshipSchema list \<Rightarrow> ColumnSchema \<times> RelationshipSchema list" where
  "scan_target_columns src tgt [] (col, rels) = (col, rels)"
| "scan_target_columns src tgt (target_col # rest) (col, rels) =
     scan_target_columns src tgt rest
       (if linked col target_col
        then (col\<lparr>is_foreign_key := True\<rparr>, rels @ [link src col tgt target_col])
        else (col, rels))"

text \<open>\<^verbatim>\<open>for target_table in tables\<close>, with its \<^verbatim>\<open>continue\<close> on an equal canonical id.\<close>

fun scan_target_tables ::
  "TableSchema \<Rightarrow> TableSchema list
     \<Rightarrow> ColumnSchema \<times> RelationshipSchema list \<Rightarrow> ColumnSchema \<times> RelationshipSchema list" where
  "scan_target_tables src [] (col, rels) = (col, rels)"
| "scan_target_tables src (tgt # rest) (col, rels) =
     scan_target_tables src rest
       (if TableSchema.canonical_id src = TableSchema.canonical_id tgt then (col, rels)
        else scan_target_columns src tgt (columns tgt) (col, rels))"

text \<open>
  \<^verbatim>\<open>for col in source_table.columns\<close>: returns the columns as the loop leaves them.
  \<open>all_tables\<close> is the list the target loop runs over.
\<close>

fun scan_columns ::
  "TableSchema \<Rightarrow> TableSchema list \<Rightarrow> ColumnSchema list \<Rightarrow> RelationshipSchema list
     \<Rightarrow> ColumnSchema list \<times> RelationshipSchema list" where
  "scan_columns src all_tables [] rels = ([], rels)"
| "scan_columns src all_tables (col # cols) rels =
     (case scan_target_tables src all_tables (col, rels) of
        (col', rels') \<Rightarrow>
          (case scan_columns src all_tables cols rels' of
             (cols', rels'') \<Rightarrow> (col' # cols', rels'')))"

text \<open>
  \<^verbatim>\<open>for source_table in tables\<close>: \<open>visited\<close> holds the tables already gone through, with
  their flags set, \<open>src # rest\<close> those still to come; the target loop runs over all of
  them in the state they are in. The source table is never its own target (the
  \<^verbatim>\<open>continue\<close>), so the flags set in it while its columns are scanned are read by no test.
\<close>

fun scan_tables ::
  "TableSchema list \<Rightarrow> TableSchema list \<Rightarrow> RelationshipSchema list
     \<Rightarrow> TableSchema list \<times> RelationshipSchema list" where
  "scan_tables visited [] rels = (visited, rels)"
| "scan_tables visited (src # rest) rels =
     (case scan_columns src (visited @ src # rest) (columns src) rels of
        (cols', rels') \<Rightarrow> scan_tables (visited @ [src\<lparr>columns := cols'\<rparr>]) rest rels')"

text \<open>
  \<^verbatim>\<open>discover_relationships(tables)\<close>: the tables as the call leaves them, and the list it
  returns.
\<close>

definition discover_relationships ::
  "TableSchema list \<Rightarrow> TableSchema list \<times> RelationshipSchema list" where
  "discover_relationships tbls = scan_tables [] tbls []"

section \<open>The graph builder (data_dictionaries_schema.py)\<close>

text \<open>
  \<^verbatim>\<open>process_csv_files\<close> reads the rows of the data frames that \<^verbatim>\<open>pandas\<close> makes of the
  files. A row is modelled by the four cells the function reads, each as the text the
  function sees: \<open>key\<close> is \<^verbatim>\<open>str(row.get('key', ''))\<close>, the properties and the data
  type are the \<^verbatim>\<open>str(...)\<close> of their cells, and the description is \<open>None\<close> for a
  missing cell (\<^verbatim>\<open>pd.notna\<close> is false) and the text of the cell otherwise.
\<close>

record Row =
  key :: string
  al_datadict_item_properties :: string
  al_datadict_item_column_data_type :: string
  description :: "string option"

text \<open>
  The value that \<^verbatim>\<open>all_tables\<close> holds for a normalized table name. The dictionary itself
  is an association list in insertion order, the order in which \<^verbatim>\<open>items()\<close> gives it
  back. The description of a table whose cell is missing is the empty string here (the
  source keeps the missing value of the data frame).
\<close>

record Entry =
  phys :: string
  cols :: "ColumnSchema list"
  desc :: string

text \<open>The column that a row which does not describe the table adds to its table.\<close>

definition new_column :: "string \<Rightarrow> Row \<Rightarrow> ColumnSchema" where
  "new_column norm_table r =
     (let col_raw = last (split CHR ''.'' (key r));
          col_name = normalize_column_name col_raw
      in \<lparr>name = col_name,
          data_type = normalize_data_type (al_datadict_item_column_data_type r),
          canonical_id = norm_table @ ''.'' @ col_name,
          is_primary_key = (str_in ''id'' col_name \<and> str_in norm_table col_name),
          is_foreign_key = False,
          description = (case Row.description r of Some d \<Rightarrow> d | None \<Rightarrow> [])\<rparr>)"

text \<open>The body of the loop over the rows; a row without a dotted key is skipped.\<close>

definition add_row :: "(string \<times> Entry) list \<Rightarrow> Row \<Rightarrow> (string \<times> Entry) list" where
  "add_row all_tables r =
     (if key r = [] \<or> \<not> str_in ''.'' (key r) then all_tables
      else
        let phys_table = join ''.'' (butlast (split CHR ''.'' (key r)));
            norm_table = normalize_table_name phys_table;
            all_tables =
              (if map_of all_tables norm_table = None
               then all_tables @ [(norm_table, \<lparr>phys = phys_table, cols = [], desc = []\<rparr>)]
               else all_tables)
        in if str_in ''otype=table'' (al_datadict_item_properties r)
           then AList.map_entry norm_table
                  (\<lambda>e. e\<lparr>desc := (case Row.description r of Some d \<Rightarrow> d | None \<Rightarrow> [])\<rparr>)
                  all_tables
           else AList.map_entry norm_table
                  (\<lambda>e. e\<lparr>cols := cols e @ [new_column norm_table r]\<rparr>)
                  all_tables)"

text \<open>The \<^verbatim>\<open>TableSchema\<close> made of an item of \<^verbatim>\<open>all_tables\<close>.\<close>

definition table_object :: "string \<times> Entry \<Rightarrow> TableSchema" where
  "table_object item =
     (case item of (nm, data) \<Rightarrow>
        \<lparr>table_name = nm,
         physical_name = phys data,
         table_type = (if str_in ''enriched'' (phys data) then ''ENRICHED'' else ''RAW''),
         domain = (if str_in ''financial'' (phys data) then ''Finance'' else ''Account''),
         columns = cols data,
         canonical_id = nm,
         description = desc data\<rparr>)"

text \<open>
  \<^verbatim>\<open>process_csv_files\<close>, from the data frames of the files in the order of
  \<^verbatim>\<open>glob.glob\<close>. The tables of the result are the objects that
  \<^verbatim>\<open>discover_relationships\<close> has flagged.
\<close>

definition process_csv_files :: "Row list list \<Rightarrow> MetadataSchema" where
  "process_csv_files files =
     (let all_tables = foldl (foldl add_row) [] files;
          table_objects = map table_object all_tables
      in case discover_relationships table_objects of
           (table_objects, rels) \<Rightarrow> \<lparr>tables = table_objects, relationships = rels\<rparr>)"

section \<open>The literal tables and the curated relationships (TestSchema.py)\<close>

text \<open>\<^verbatim>\<open>raw_metadata\<close>: each table with its physical name and its columns, a name and a
  type each.\<close>

definition raw_metadata :: "(string \<times> (string \<times> string) list) list" where
  "raw_metadata =
     [(''foundation.financial.ledger_lines_enriched_v1'',
         [(''ledger_line_id'', ''bigint''), (''account_id'', ''varchar''),
          (''transaction_id'', ''varchar''), (''entry_date'', ''timestamp''),
          (''amount'', ''decimal'')]),
      (''foundation.financial.deposits_v4'',
         [(''deposit_id'', ''bigint''), (''user_id'', ''varchar''), (''amount'', ''decimal''),
          (''method'', ''varchar''), (''deposit_date'', ''timestamp'')]),
      (''foundation.financial.deposits_enriched_v1'',
         [(''deposit_id'', ''bigint''), (''user_id'', ''varchar''), (''amount'', ''decimal''),
          (''transaction_id'', ''varchar''), (''status'', ''varchar'')]),
      (''foundation.financial.withdrawals_v4'',
         [(''withdrawal_id'', ''bigint''), (''user_id'', ''varchar''), (''amount'', ''decimal''),
          (''withdrawal_date'', ''timestamp''), (''method'', ''varchar'')]),
      (''foundation.financial.withdrawals_enriched_v4'',
         [(''withdrawal_id'', ''bigint''), (''user_id'', ''varchar''), (''amount'', ''decimal''),
          (''status'', ''varchar''), (''transaction_id'', ''varchar'')]),
      (''foundation.financial.ledger_account_balances_v1'',
         [(''account_id'', ''varchar''), (''user_id'', ''varchar''), (''balance'', ''decimal''),
          (''as_of_date'', ''date''), (''currency'', ''varchar'')]),
      (''foundation.financial.worldpay_transactions'',
         [(''transaction_id'', ''varchar''), (''transaction_type'', ''varchar''),
          (''amount'', ''decimal''), (''status'', ''varchar''), (''user_id'', ''varchar'')]),
      (''foundation.account.authgateway_session_created_events'',
         [(''session_id'', ''varchar''), (''user_id'', ''varchar''), (''success'', ''varchar''),
          (''device_type'', ''varchar''), (''created_at'', ''timestamp'')]),
      (''foundation.account.verification_attempt_v1'',
         [(''attempt_id'', ''varchar''), (''user_id'', ''varchar''),
          (''verification_type'', ''varchar''), (''result'', ''varchar''),
          (''attempted_at'', ''timestamp'')]),
      (''foundation.account.verified_user_details'',
         [(''user_id'', ''varchar''), (''verification_level'', ''varchar''),
          (''verified_date'', ''timestamp''), (''country'', ''varchar''),
          (''active'', ''varchar'')])]"

text \<open>The body of the loop that fills \<^verbatim>\<open>table_objects\<close>.\<close>

definition table_object_ts :: "string \<times> (string \<times> string) list \<Rightarrow> TableSchema_ts" where
  "table_object_ts tbl =
     (case tbl of (phys_name, raw_columns) \<Rightarrow>
        let norm_name = normalize_table_name_ts phys_name;
            t_type = get_table_type phys_name
        in \<lparr>TableSchema_ts.table_name = norm_name,
            TableSchema_ts.physical_name = phys_name,
            TableSchema_ts.table_type = t_type,
            TableSchema_ts.domain = assign_domain phys_name,
            TableSchema_ts.columns =
              map (\<lambda>(n, ty). \<lparr>ColumnSchema_ts.name = normalize_column_name_ts n,
                               ColumnSchema_ts.data_type = normalize_data_type_ts ty,
                               ColumnSchema_ts.description = []\<rparr>) raw_columns,
            TableSchema_ts.description =
              ''This is the '' @ t_type @ '' version of the '' @ norm_name @ '' concept.''\<rparr>)"

definition table_objects :: "TableSchema_ts list" where
  "table_objects = map table_object_ts raw_metadata"

text \<open>The curated list \<^verbatim>\<open>relationships\<close>.\<close>

definition relationships_ts :: "RelationshipSchema list" where
  "relationships_ts =
     [\<lparr>source_table = ''foundation_financial_deposits'', source_column = ''account_id'',
       target_table = ''foundation_account_verified_user_details'', target_column = ''user_id'',
       relationship_type = ''belongs_to'',
       description = ''Deposits are made into accounts owned by verified users.''\<rparr>,
      \<lparr>source_table = ''foundation_financial_withdrawals'', source_column = ''account_id'',
       target_table = ''foundation_account_verified_user_details'', target_column = ''user_id'',
       relationship_type = ''belongs_to'',
       description = ''Withdrawals are performed by users associated with accounts.''\<rparr>,
      \<lparr>source_table = ''foundation_financial_ledger_account_balances'',
       source_column = ''account_id'',
       target_table = ''foundation_account_verified_user_details'', target_column = ''user_id'',
       relationship_type = ''account_owner'',
       description = ''Ledger account balances correspond to verified users.''\<rparr>,
      \<lparr>source_table = ''foundation_account_authgateway_session_created_events'',
       source_column = ''user_id'',
       target_table = ''foundation_account_verified_user_details'', target_column = ''user_id'',
       relationship_type = ''session_of'',
       description = ''Authentication sessions belong to verified users.''\<rparr>,
      \<lparr>source_table = ''foundation_account_verification_attempt'', source_column = ''user_id'',
       target_table = ''foundation_account_verified_user_details'', target_column = ''user_id'',
       relationship_type = ''verification_event'',
       description = ''Verification attempts relate to user identity validation.''\<rparr>,
      \<lparr>source_table = ''foundation_financial_worldpay_transactions'',
       source_column = ''account_id'',
       target_table = ''foundation_account_verified_user_details'', target_column = ''user_id'',
       relationship_type = ''payment_transaction'',
       description = ''Worldpay transactions originate from user-linked accounts.''\<rparr>]"

definition metadata_model :: MetadataSchema_ts where
  "metadata_model =
     \<lparr>MetadataSchema_ts.tables = table_objects,
      MetadataSchema_ts.relationships = relationships_ts\<rparr>"

text \<open>
  A table of the given canonical name with a column of the given name is among the
  tables: what a relationship of the curated list refers to by its table and column.
\<close>

definition column_exists :: "TableSchema_ts list \<Rightarrow> string \<Rightarrow> string \<Rightarrow> bool" where
  "column_exists tbls tn cn =
     list_ex (\<lambda>t. TableSchema_ts.table_name t = tn \<and>
                   list_ex (\<lambda>c. ColumnSchema_ts.name c = cn) (TableSchema_ts.columns t)) tbls"

section \<open>The model output contract (run_prompt_generation.py)\<close>

text \<open>
  The response of the model after \<^verbatim>\<open>json.loads\<close>: a JSON value. The functions below
  test a value for being \<^verbatim>\<open>None\<close>, a list or a blank string and never read a number,
  so numbers are integers here. A dictionary is a finite map from its keys.
\<close>

datatype json =
    JNull
  | JBool bool
  | JNumber int
  | JString string
  | JArray "json list"
  | JObject "(string \<times> json) list"

datatype error = RuntimeError string

definition key_map :: "(string \<times> string list) list" where
  "key_map =
     [(''governance_doc_markdown'',
         [''governance_doc_markdown'', ''governance_markdown'', ''governanceDocMarkdown'']),
      (''delta_ontology_ttl'',
         [''delta_ontology_ttl'', ''delta_ontology'', ''deltaOntologyTtl'', ''delta_ttl'',
          ''deltaOntologyTTL'']),
      (''new_terms'', [''new_terms'', ''newTerms'', ''added_terms'', ''addedTerms''])]"

text \<open>
  \<^verbatim>\<open>for v in variants\<close> with its \<^verbatim>\<open>break\<close>: the value of the first variant that is a
  key of \<open>output\<close>.
\<close>

fun first_variant :: "(string \<rightharpoonup> json) \<Rightarrow> string list \<Rightarrow> json option" where
  "first_variant output [] = None"
| "first_variant output (v # variants) =
     (case output v of
        Some x \<Rightarrow> Some x
      | None \<Rightarrow> first_variant output variants)"

text \<open>\<^verbatim>\<open>for required_key, variants in key_map.items()\<close>\<close>

fun collect_keys ::
  "(string \<rightharpoonup> json) \<Rightarrow> (string \<times> string list) list \<Rightarrow> (string \<rightharpoonup> json) \<Rightarrow> (string \<rightharpoonup> json)" where
  "collect_keys output [] normalized = normalized"
| "collect_keys output ((required_key, variants) # rest) normalized =
     collect_keys output rest
       (case first_variant output variants of
          Some x \<Rightarrow> normalized(required_key \<mapsto> x)
        | None \<Rightarrow> normalized)"

text \<open>
  \<^verbatim>\<open>not str(x).strip()\<close>: the text of \<open>x\<close> is empty or white space. \<^verbatim>\<open>str\<close> of a
  value that is not a string (\<^verbatim>\<open>None\<close>, a truth value, a number, a list, a dictionary)
  is never blank.
\<close>

definition blank :: "json \<Rightarrow> bool" where
  "blank x = (case x of JString s \<Rightarrow> strip s = [] | _ \<Rightarrow> False)"

definition normalize_model_output ::
  "(string \<rightharpoonup> json) \<Rightarrow> string \<Rightarrow> error + (string \<rightharpoonup> json)" where
  "normalize_model_output output tbl =
     (let normalized = collect_keys output key_map Map.empty;
          normalized =
            (if normalized ''new_terms'' = None \<or> normalized ''new_terms'' = Some JNull
             then normalized(''new_terms'' \<mapsto> JArray [])
             else normalized);
          normalized =
            (if (case normalized ''delta_ontology_ttl'' of None \<Rightarrow> True | Some x \<Rightarrow> blank x)
             then normalized(''delta_ontology_ttl'' \<mapsto> JString ''# No delta required'')
             else normalized)
      in if (case normalized ''governance_doc_markdown'' of None \<Rightarrow> True | Some x \<Rightarrow> blank x)
         then Inl (RuntimeError
                (''Missing governance_doc_markdown in model output for table '' @ tbl))
         else Inr (case normalized ''new_terms'' of
                     Some (JArray xs) \<Rightarrow> normalized
                   | Some x \<Rightarrow> normalized(''new_terms'' \<mapsto> JArray [x])
                   | None \<Rightarrow> normalized))"

section \<open>Closed forms of the discovery loops\<close>

definition col_matched :: "TableSchema \<Rightarrow> ColumnSchema \<Rightarrow> TableSchema list \<Rightarrow> bool" where
  "col_matched src col tbls =
     (\<exists>tgt\<in>set tbls. TableSchema.canonical_id src \<noteq> TableSchema.canonical_id tgt \<and>
        (\<exists>target_col\<in>set (columns tgt). linked col target_col))"

definition col_links :: "TableSchema \<Rightarrow> ColumnSchema \<Rightarrow> TableSchema list \<Rightarrow> RelationshipSchema list" where
  "col_links src col tbls =
     concat (map (\<lambda>tgt. if TableSchema.canonical_id src = TableSchema.canonical_id tgt then []
                          else map (link src col tgt) (filter (linked col) (columns tgt))) tbls)"

definition flagged :: "TableSchema list \<Rightarrow> TableSchema \<Rightarrow> TableSchema" where
  "flagged tbls src =
     src\<lparr>columns := map (\<lambda>col. col\<lparr>is_foreign_key := is_foreign_key col \<or> col_matched src col tbls\<rparr>)
                        (columns src)\<rparr>"

definition table_links :: "TableSchema list \<Rightarrow> TableSchema \<Rightarrow> RelationshipSchema list" where
  "table_links tbls src = concat (map (\<lambda>col. col_links src col tbls) (columns src))"

text \<open>What every item of \<^verbatim>\<open>all_tables\<close> satisfies: the primary-key flag of each of its
  columns is the test of \<open>new_column\<close> for the key of the item.\<close>

definition keyed :: "(string \<times> Entry) list \<Rightarrow> bool" where
  "keyed all_tables =
     (\<forall>(nm, e)\<in>set all_tables. \<forall>c\<in>set (cols e).
        is_primary_key c = (str_in ''id'' (ColumnSchema.name c) \<and> str_in nm (ColumnSchema.name c)))"

text \<open>
  The two-table fixture of the specification: \<^verbatim>\<open>deposits\<close> with the columns
  \<^verbatim>\<open>user_id\<close> and \<^verbatim>\<open>amount\<close>, \<^verbatim>\<open>verified_user_details\<close> with \<^verbatim>\<open>user_id\<close> and
  \<^verbatim>\<open>country\<close>, as the builder creates them.
\<close>

definition deposits_table :: TableSchema where
  "deposits_table =
     \<lparr>table_name = ''deposits'', physical_name = ''foundation.financial.deposits_v4'',
      table_type = ''RAW'', domain = ''Finance'',
      columns =
        [\<lparr>name = ''user_id'', data_type = ''string'', canonical_id = ''deposits.user_id'',
          is_primary_key = False, is_foreign_key = False, description = []\<rparr>,
         \<lparr>name = ''amount'', data_type = ''decimal'', canonical_id = ''deposits.amount'',
          is_primary_key = False, is_foreign_key = False, description = []\<rparr>],
      canonical_id = ''deposits'', description = []\<rparr>"

definition verified_user_details_table :: TableSchema where
  "verified_user_details_table =
     \<lparr>table_name = ''verified_user_details'',
      physical_name = ''foundation.account.verified_user_details'',
      table_type = ''RAW'', domain = ''Account'',
      columns =
        [\<lparr>name = ''user_id'', data_type = ''string'',
          canonical_id = ''verified_user_details.user_id'',
          is_primary_key = False, is_foreign_key = False, description = []\<rparr>,
         \<lparr>name = ''country'', data_type = ''string'',
          canonical_id = ''verified_user_details.country'',
          is_primary_key = False, is_foreign_key = False, description = []\<rparr>],
      canonical_id = ''verified_user_details'', description = []\<rparr>"

text \<open>
  The \<^verbatim>\<open>ENRICHED\<close> variant of \<^verbatim>\<open>deposits\<close>: another table of the same canonical id.
\<close>

definition deposits_enriched_table :: TableSchema where
  "deposits_enriched_table =
     \<lparr>table_name = ''deposits'',
      physical_name = ''foundation.financial.deposits_enriched_v1'',
      table_type = ''ENRICHED'', domain = ''Finance'',
      columns =
        [\<lparr>name = ''user_id'', data_type = ''string'', canonical_id = ''deposits.user_id'',
          is_primary_key = False, is_foreign_key = False, description = []\<rparr>,
         \<lparr>name = ''amount_usd'', data_type = ''decimal'',
          canonical_id = ''deposits.amount_usd'',
          is_primary_key = False, is_foreign_key = False, description = []\<rparr>],
      canonical_id = ''deposits'', description = []\<rparr>"

definition fixture_tables :: "TableSchema list" where
  "fixture_tables = [deposits_table, verified_user_details_table]"

text \<open>
  Rows of a data dictionary export that describe columns: the key is the qualified
  name of the table followed by the name of the column.
\<close>

definition column_row :: "string \<Rightarrow> string \<Rightarrow> Row" where
  "column_row k ty =
     \<lparr>key = k, al_datadict_item_properties = ''otype=attribute'',
      al_datadict_item_column_data_type = ty, description = None\<rparr>"

definition deposits_rows :: "Row list" where
  "deposits_rows =
     [column_row ''foundation.financial.deposits_v4.deposit_id'' ''bigint'',
      column_row ''foundation.financial.deposits_v4.user_id'' ''varchar'']"

definition deposits_id_rows :: "Row list" where
  "deposits_id_rows =
     [column_row ''foundation.financial.deposits_enriched_v1.deposits_id'' ''bigint'']"

definition upper_case_rows :: "Row list" where
  "upper_case_rows =
     [column_row ''FOUNDATION.FINANCIAL.DEPOSITS_ENRICHED_V1.USER_ID'' ''VARCHAR'']"

definition sportsbook_rows :: "Row list" where
  "sportsbook_rows =
     [column_row ''foundation.sportsbook.bets_v1.bet_id'' ''bigint'']"

text \<open>
  Rows of two physical tables of one canonical name: the rows of the \<^verbatim>\<open>RAW\<close> table of
  the account schema come first, those of the \<^verbatim>\<open>ENRICHED\<close> table of the financial schema
  follow.
\<close>

definition merged_rows :: "Row list" where
  "merged_rows =
     [column_row ''foundation.account.deposits_v4.user_id'' ''varchar'',
      column_row ''foundation.financial.deposits_enriched_v1.amount_usd'' ''decimal'']"

section \<open>Properties of the string functions\<close>

lemma str_in_sublist: "str_in sub s \<longleftrightarrow> sublist sub s"
  by (induction s) (auto simp: sublist_Cons_right)

section \<open>Properties of relationship discovery\<close>

lemma linked_flag [simp]: "linked (col\<lparr>is_foreign_key := b\<rparr>) = linked col"
  by (rule ext) (simp add: linked_def)

lemma linked_flag_target [simp]: "linked col (target_col\<lparr>is_foreign_key := b\<rparr>) = linked col target_col"
  by (simp add: linked_def)

lemma link_flag [simp]: "link src (col\<lparr>is_foreign_key := b\<rparr>) = link src col"
  by (intro ext) (simp add: link_def)

lemma link_flag_target [simp]: "link src col tgt (target_col\<lparr>is_foreign_key := b\<rparr>) = link src col tgt target_col"
  by (simp add: link_def)

lemma link_target_columns [simp]:
  "link src col (tgt\<lparr>columns := cs\<rparr>) = link src col tgt"
  by (rule ext) (simp add: link_def)

lemma scan_target_columns_eq:
  "scan_target_columns src tgt tcs (col, rels) =
     (col\<lparr>is_foreign_key := is_foreign_key col \<or> (\<exists>tc\<in>set tcs. linked col tc)\<rparr>,
      rels @ map (link src col tgt) (filter (linked col) tcs))"
  by (induction tcs arbitrary: col rels) auto

lemma col_matched_flag [simp]:
  "col_matched src (col\<lparr>is_foreign_key := b\<rparr>) tbls = col_matched src col tbls"
  by (simp add: col_matched_def)

lemma col_links_flag [simp]:
  "col_links src (col\<lparr>is_foreign_key := b\<rparr>) tbls = col_links src col tbls"
  by (simp add: col_links_def cong: if_cong)

lemma col_matched_Nil [simp]: "col_matched src col [] = False"
  by (simp add: col_matched_def)

lemma col_matched_Cons [simp]:
  "col_matched src col (tgt # tbls) =
     ((TableSchema.canonical_id src \<noteq> TableSchema.canonical_id tgt \<and>
        (\<exists>target_col\<in>set (columns tgt). linked col target_col)) \<or> col_matched src col tbls)"
  by (simp add: col_matched_def)

lemma col_links_Nil [simp]: "col_links src col [] = []"
  by (simp add: col_links_def)

lemma col_links_Cons [simp]:
  "col_links src col (tgt # tbls) =
     (if TableSchema.canonical_id src = TableSchema.canonical_id tgt then []
      else map (link src col tgt) (filter (linked col) (columns tgt))) @ col_links src col tbls"
  by (simp add: col_links_def)

lemma scan_target_tables_eq:
  "scan_target_tables src tbls (col, rels) =
     (col\<lparr>is_foreign_key := is_foreign_key col \<or> col_matched src col tbls\<rparr>,
      rels @ col_links src col tbls)"
  by (induction tbls arbitrary: col rels) (auto simp: scan_target_columns_eq)

lemma scan_columns_eq:
  "scan_columns src tbls cs rels =
     (map (\<lambda>col. col\<lparr>is_foreign_key := is_foreign_key col \<or> col_matched src col tbls\<rparr>) cs,
      rels @ concat (map (\<lambda>col. col_links src col tbls) cs))"
  by (induction cs arbitrary: rels) (simp_all add: scan_target_tables_eq)

text \<open>Flags of the target tables are read by no test.\<close>

lemma col_matched_flagged [simp]:
  "col_matched src col (map (flagged A) tbls) = col_matched src col tbls"
  by (induction tbls) (simp_all add: flagged_def)

lemma col_links_flagged [simp]:
  "col_links src col (map (flagged A) tbls) = col_links src col tbls"
  by (induction tbls) (simp_all add: flagged_def filter_map comp_def)

lemma col_matched_append [simp]:
  "col_matched src col (xs @ ys) = (col_matched src col xs \<or> col_matched src col ys)"
  by (induction xs) auto

lemma col_links_append [simp]:
  "col_links src col (xs @ ys) = col_links src col xs @ col_links src col ys"
  by (induction xs) auto

lemma scan_tables_eq:
  "scan_tables (map (flagged (visited @ todo)) visited) todo rels =
     (map (flagged (visited @ todo)) (visited @ todo),
      rels @ concat (map (table_links (visited @ todo)) todo))"
proof (induction todo arbitrary: visited rels)
  case Nil
  show ?case by simp
next
  case (Cons src rest)
  have step: "scan_columns src (map (flagged (visited @ src # rest)) visited @ src # rest) (columns src) rels =
      (columns (flagged (visited @ src # rest) src), rels @ table_links (visited @ src # rest) src)"
    by (simp add: scan_columns_eq flagged_def table_links_def)
  have upd: "src\<lparr>columns := columns (flagged (visited @ src # rest) src)\<rparr> = flagged (visited @ src # rest) src"
    by (simp add: flagged_def)
  from Cons.IH [of "visited @ [src]" "rels @ table_links (visited @ src # rest) src"]
  show ?case
    by (simp add: step upd)
qed

lemma discover_relationships_eq:
  "discover_relationships tbls = (map (flagged tbls) tbls, concat (map (table_links tbls) tbls))"
  using scan_tables_eq [of "[]" tbls "[]"] by (simp add: discover_relationships_def)

lemma set_discover_relationships:
  "set (snd (discover_relationships tbls)) =
     {link src col tgt target_col | src col tgt target_col.
        src \<in> set tbls \<and> col \<in> set (columns src) \<and> tgt \<in> set tbls \<and>
        TableSchema.canonical_id src \<noteq> TableSchema.canonical_id tgt \<and>
        target_col \<in> set (columns tgt) \<and> linked col target_col}"
  by (auto simp: discover_relationships_eq table_links_def col_links_def split: if_splits)

lemma fixture_relationships:
  "snd (discover_relationships fixture_tables) =
     [\<lparr>source_table = ''deposits'', source_column = ''deposits.user_id'',
       target_table = ''verified_user_details'',
       target_column = ''verified_user_details.user_id'',
       relationship_type = ''linked_by_id'',
       description = ''Auto-detected link via user_id''\<rparr>,
      \<lparr>source_table = ''verified_user_details'',
       source_column = ''verified_user_details.user_id'',
       target_table = ''deposits'', target_column = ''deposits.user_id'',
       relationship_type = ''linked_by_id'',
       description = ''Auto-detected link via user_id''\<rparr>]"
  by (simp add: discover_relationships_def fixture_tables_def deposits_table_def
      verified_user_details_table_def linked_def link_def)

lemma link_sel:
  "source_table (link src col tgt target_col) = TableSchema.canonical_id src"
  "source_column (link src col tgt target_col) = ColumnSchema.canonical_id col"
  "target_table (link src col tgt target_col) = TableSchema.canonical_id tgt"
  "target_column (link src col tgt target_col) = ColumnSchema.canonical_id target_col"
  "relationship_type (link src col tgt target_col) = ''linked_by_id''"
  by (simp_all add: link_def)

lemma fst_discover_relationships:
  "fst (discover_relationships tbls) = map (flagged tbls) tbls"
  by (simp add: discover_relationships_eq)

lemma fixture_flags:
  "map (\<lambda>t. map is_foreign_key (columns t)) (fst (discover_relationships fixture_tables)) =
     [[True, False], [True, False]]"
  by (simp add: discover_relationships_def fixture_tables_def deposits_table_def
      verified_user_details_table_def linked_def link_def)

lemma same_id_relationships:
  "discover_relationships [deposits_table, deposits_enriched_table] =
     ([deposits_table, deposits_enriched_table], [])"
  by (simp add: discover_relationships_def deposits_table_def deposits_enriched_table_def)

section \<open>Properties of the graph builder\<close>

lemma set_map_entry:
  "x \<in> set (AList.map_entry k f xs) \<Longrightarrow>
     x \<in> set xs \<or> (\<exists>e. (k, e) \<in> set xs \<and> x = (k, f e))"
  by (induction xs) (auto split: if_splits)

lemma new_column_flag:
  "is_primary_key (new_column nm r) =
     (str_in ''id'' (ColumnSchema.name (new_column nm r)) \<and>
      str_in nm (ColumnSchema.name (new_column nm r)))"
  by (simp add: new_column_def Let_def)

lemma keyed_append:
  "keyed xs \<Longrightarrow> keyed (xs @ [(nm, \<lparr>phys = p, cols = [], desc = d\<rparr>)])"
  by (auto simp: keyed_def)

lemma keyed_desc:
  "keyed xs \<Longrightarrow> keyed (AList.map_entry nm (\<lambda>e. e\<lparr>desc := d\<rparr>) xs)"
  unfolding keyed_def by (fastforce dest: set_map_entry)

lemma keyed_cols:
  "keyed xs \<Longrightarrow> keyed (AList.map_entry nm (\<lambda>e. e\<lparr>cols := cols e @ [new_column nm r]\<rparr>) xs)"
  unfolding keyed_def using new_column_flag by (fastforce dest: set_map_entry)

lemma keyed_add_row: "keyed xs \<Longrightarrow> keyed (add_row xs r)"
  by (simp add: add_row_def Let_def keyed_append keyed_desc keyed_cols)

lemma keyed_rows: "keyed xs \<Longrightarrow> keyed (foldl add_row xs rows)"
  by (induction rows arbitrary: xs) (simp_all add: keyed_add_row)

lemma keyed_files: "keyed xs \<Longrightarrow> keyed (foldl (foldl add_row) xs files)"
  by (induction files arbitrary: xs) (simp_all add: keyed_rows)

lemma keyed_all_tables: "keyed (foldl (foldl add_row) [] files)"
  by (rule keyed_files) (simp add: keyed_def)

lemma tables_process_csv_files:
  "tables (process_csv_files files) =
     (let T = map table_object (foldl (foldl add_row) [] files) in map (flagged T) T)"
  by (simp add: process_csv_files_def Let_def discover_relationships_eq)

lemma relationships_process_csv_files:
  "relationships (process_csv_files files) =
     snd (discover_relationships (map table_object (foldl (foldl add_row) [] files)))"
  by (simp add: process_csv_files_def Let_def split: prod.splits)

lemma flagged_sel [simp]:
  "table_name (flagged T t) = table_name t"
  "physical_name (flagged T t) = physical_name t"
  "table_type (flagged T t) = table_type t"
  "domain (flagged T t) = domain t"
  "TableSchema.canonical_id (flagged T t) = TableSchema.canonical_id t"
  "TableSchema.description (flagged T t) = TableSchema.description t"
  by (simp_all add: flagged_def)

lemma table_object_sel [simp]:
  "table_name (table_object (nm, e)) = nm"
  "physical_name (table_object (nm, e)) = phys e"
  "table_type (table_object (nm, e)) = (if str_in ''enriched'' (phys e) then ''ENRICHED'' else ''RAW'')"
  "domain (table_object (nm, e)) = (if str_in ''financial'' (phys e) then ''Finance'' else ''Account'')"
  "columns (table_object (nm, e)) = cols e"
  "TableSchema.canonical_id (table_object (nm, e)) = nm"
  by (simp_all add: table_object_def)

lemma table_of_process_csv_files:
  assumes "t \<in> set (tables (process_csv_files files))"
  obtains nm e where "(nm, e) \<in> set (foldl (foldl add_row) [] files)"
    and "t = flagged (map table_object (foldl (foldl add_row) [] files)) (table_object (nm, e))"
  using assms by (auto simp: tables_process_csv_files Let_def)

lemma built_primary_key:
  assumes "t \<in> set (tables (process_csv_files files))" and "c \<in> set (columns t)"
  shows "is_primary_key c =
     (str_in ''id'' (ColumnSchema.name c) \<and> str_in (table_name t) (ColumnSchema.name c))"
proof -
  from assms(1) obtain nm e where
    item: "(nm, e) \<in> set (foldl (foldl add_row) [] files)" and
    t: "t = flagged (map table_object (foldl (foldl add_row) [] files)) (table_object (nm, e))"
    by (rule table_of_process_csv_files)
  from assms(2) obtain c0 where c0: "c0 \<in> set (cols e)" and
    c: "c = c0\<lparr>is_foreign_key := is_foreign_key c\<rparr>"
    by (auto simp: t flagged_def)
  from keyed_all_tables [of files] item c0
  have "is_primary_key c0 =
      (str_in ''id'' (ColumnSchema.name c0) \<and> str_in nm (ColumnSchema.name c0))"
    by (auto simp: keyed_def)
  moreover have "is_primary_key c = is_primary_key c0" "ColumnSchema.name c = ColumnSchema.name c0"
    by (subst c, simp)+
  ultimately show ?thesis
    by (simp add: t)
qed

lemma built_table_type:
  assumes "t \<in> set (tables (process_csv_files files))"
  shows "table_type t = (if str_in ''enriched'' (physical_name t) then ''ENRICHED'' else ''RAW'')"
    and "domain t = (if str_in ''financial'' (physical_name t) then ''Finance'' else ''Account'')"
    and "TableSchema.canonical_id t = table_name t"
  using assms by (auto elim!: table_of_process_csv_files)

lemma sublist_eval: "sublist sub s = str_in sub s"
  by (simp add: str_in_sublist)

lemma deposits_rows_tables:
  "tables (process_csv_files [deposits_rows]) =
     [\<lparr>table_name = ''deposits'', physical_name = ''foundation.financial.deposits_v4'',
       table_type = ''RAW'', domain = ''Finance'',
       columns =
         [\<lparr>name = ''deposit_id'', data_type = ''integer'',
           canonical_id = ''deposits.deposit_id'',
           is_primary_key = False, is_foreign_key = False, description = []\<rparr>,
          \<lparr>name = ''user_id'', data_type = ''string'', canonical_id = ''deposits.user_id'',
           is_primary_key = False, is_foreign_key = False, description = []\<rparr>],
       canonical_id = ''deposits'', description = []\<rparr>]"
  by code_simp

lemma deposits_id_rows_tables:
  "tables (process_csv_files [deposits_id_rows]) =
     [\<lparr>table_name = ''deposits'',
       physical_name = ''foundation.financial.deposits_enriched_v1'',
       table_type = ''ENRICHED'', domain = ''Finance'',
       columns =
         [\<lparr>name = ''deposits_id'', data_type = ''integer'',
           canonical_id = ''deposits.deposits_id'',
           is_primary_key = True, is_foreign_key = False, description = []\<rparr>],
       canonical_id = ''deposits'', description = []\<rparr>]"
  by code_simp

lemma upper_case_rows_tables:
  "tables (process_csv_files [upper_case_rows]) =
     [\<lparr>table_name = ''deposits'',
       physical_name = ''FOUNDATION.FINANCIAL.DEPOSITS_ENRICHED_V1'',
       table_type = ''RAW'', domain = ''Account'',
       columns =
         [\<lparr>name = ''user_id'', data_type = ''string'', canonical_id = ''deposits.user_id'',
           is_primary_key = False, is_foreign_key = False, description = []\<rparr>],
       canonical_id = ''deposits'', description = []\<rparr>]"
  by code_simp

lemma sportsbook_rows_tables:
  "tables (process_csv_files [sportsbook_rows]) =
     [\<lparr>table_name = ''bets_v1'', physical_name = ''foundation.sportsbook.bets_v1'',
       table_type = ''RAW'', domain = ''Account'',
       columns =
         [\<lparr>name = ''bet_id'', data_type = ''integer'', canonical_id = ''bets_v1.bet_id'',
           is_primary_key = False, is_foreign_key = False, description = []\<rparr>],
       canonical_id = ''bets_v1'', description = []\<rparr>]"
  by code_simp

lemma merged_rows_tables:
  "tables (process_csv_files [merged_rows]) =
     [\<lparr>table_name = ''deposits'', physical_name = ''foundation.account.deposits_v4'',
       table_type = ''RAW'', domain = ''Account'',
       columns =
         [\<lparr>name = ''user_id'', data_type = ''string'', canonical_id = ''deposits.user_id'',
           is_primary_key = False, is_foreign_key = False, description = []\<rparr>,
          \<lparr>name = ''amount_usd'', data_type = ''decimal'',
           canonical_id = ''deposits.amount_usd'',
           is_primary_key = False, is_foreign_key = False, description = []\<rparr>],
       canonical_id = ''deposits'', description = []\<rparr>]"
  by code_simp

lemma sibling_classification:
  "get_table_type ''FOUNDATION.FINANCIAL.DEPOSITS_ENRICHED_V1'' = ''ENRICHED''"
  "get_table_type ''foundation.financial.deposits_enriched_v1'' = ''ENRICHED''"
  "assign_domain ''FOUNDATION.FINANCIAL.DEPOSITS_ENRICHED_V1'' = ''Finance''"
  "assign_domain ''foundation.sportsbook.bets_v1'' = ''General''"
  "assign_domain ''foundation.financial.deposits_enriched_v1'' = ''Finance''"
  by code_simp+

section \<open>Properties of the model output contract\<close>

lemma collect_alias_example:
  "collect_keys [''governanceMarkdown'' \<mapsto> JString ''X'', ''addedTerms'' \<mapsto> JArray [JString ''a'']]
     key_map Map.empty = [''new_terms'' \<mapsto> JArray [JString ''a'']]"
  by (simp add: key_map_def)

lemma collect_listed_alias_example:
  "collect_keys [''governanceDocMarkdown'' \<mapsto> JString ''X'', ''addedTerms'' \<mapsto> JArray [JString ''a'']]
     key_map Map.empty =
   [''governance_doc_markdown'' \<mapsto> JString ''X'', ''new_terms'' \<mapsto> JArray [JString ''a'']]"
  by (simp add: key_map_def)

section \<open>References of the relationships\<close>

text \<open>In the graph of the builder every relationship names a table of the graph and a
  column of that table, at both ends.\<close>

lemma flagged_column:
  "col \<in> set (columns src) \<Longrightarrow>
     \<exists>col'\<in>set (columns (flagged tbls src)).
       ColumnSchema.canonical_id col' = ColumnSchema.canonical_id col \<and>
       ColumnSchema.name col' = ColumnSchema.name col"
  by (force simp: flagged_def)

lemma column_kept:
  assumes "src \<in> set tbls" and "col \<in> set (columns src)"
  shows "\<exists>src'\<in>set (fst (discover_relationships tbls)).
           TableSchema.canonical_id src' = TableSchema.canonical_id src \<and>
           (\<exists>col'\<in>set (columns src').
              ColumnSchema.canonical_id col' = ColumnSchema.canonical_id col)"
proof (rule bexI [of _ "flagged tbls src"])
  show "flagged tbls src \<in> set (fst (discover_relationships tbls))"
    using assms(1) by (simp add: fst_discover_relationships)
  show "TableSchema.canonical_id (flagged tbls src) = TableSchema.canonical_id src \<and>
      (\<exists>col'\<in>set (columns (flagged tbls src)).
         ColumnSchema.canonical_id col' = ColumnSchema.canonical_id col)"
    using flagged_column [OF assms(2), of tbls] by auto
qed

lemma discovered_references_exist:
  assumes "r \<in> set (snd (discover_relationships tbls))"
  shows "(\<exists>src\<in>set (fst (discover_relationships tbls)).
            source_table r = TableSchema.canonical_id src \<and>
            (\<exists>col\<in>set (columns src). source_column r = ColumnSchema.canonical_id col)) \<and>
         (\<exists>tgt\<in>set (fst (discover_relationships tbls)).
            target_table r = TableSchema.canonical_id tgt \<and>
            (\<exists>col\<in>set (columns tgt). target_column r = ColumnSchema.canonical_id col))"
proof -
  from assms obtain src col tgt target_col where
    r: "r = link src col tgt target_col" and
    mem: "src \<in> set tbls" "col \<in> set (columns src)" "tgt \<in> set tbls"
      "target_col \<in> set (columns tgt)"
    unfolding set_discover_relationships by blast
  from column_kept [OF mem(1,2)] column_kept [OF mem(3,4)] show ?thesis
    unfolding r link_sel by metis
qed

lemma built_references_exist:
  assumes "r \<in> set (relationships (process_csv_files files))"
  shows "(\<exists>src\<in>set (tables (process_csv_files files)).
            source_table r = TableSchema.canonical_id src \<and>
            (\<exists>col\<in>set (columns src). source_column r = ColumnSchema.canonical_id col)) \<and>
         (\<exists>tgt\<in>set (tables (process_csv_files files)).
            target_table r = TableSchema.canonical_id tgt \<and>
            (\<exists>col\<in>set (columns tgt). target_column r = ColumnSchema.canonical_id col))"
proof -
  let ?T = "map table_object (foldl (foldl add_row) [] files)"
  have "tables (process_csv_files files) = fst (discover_relationships ?T)"
    by (simp add: tables_process_csv_files fst_discover_relationships Let_def)
  moreover from assms have "r \<in> set (snd (discover_relationships ?T))"
    by (simp add: relationships_process_csv_files)
  ultimately show ?thesis
    using discovered_references_exist [of r ?T] by simp
qed

lemma table_objects_columns:
  "map (\<lambda>t. (TableSchema_ts.table_name t, map ColumnSchema_ts.name (TableSchema_ts.columns t)))
       table_objects =
     [(''foundation_financial_ledger_lines'',
         [''ledger_line_id'', ''account_id'', ''transaction_id'', ''entry_date'', ''amount'']),
      (''foundation_financial_deposits'',
         [''deposit_id'', ''user_id'', ''amount'', ''method'', ''deposit_date'']),
      (''foundation_financial_deposits'',
         [''deposit_id'', ''user_id'', ''amount'', ''transaction_id'', ''status'']),
      (''foundation_financial_withdrawals'',
         [''withdrawal_id'', ''user_id'', ''amount'', ''withdrawal_date'', ''method'']),
      (''foundation_financial_withdrawals'',
         [''withdrawal_id'', ''user_id'', ''amount'', ''status'', ''transaction_id'']),
      (''foundation_financial_ledger_account_balances'',
         [''account_id'', ''user_id'', ''balance'', ''as_of_date'', ''currency'']),
      (''foundation_financial_worldpay_transactions'',
         [''transaction_id'', ''transaction_type'', ''amount'', ''status'', ''user_id'']),
      (''foundation_account_authgateway_session_created_events'',
         [''session_id'', ''user_id'', ''success'', ''device_type'', ''created_at'']),
      (''foundation_account_verification_attempt'',
         [''attempt_id'', ''user_id'', ''verification_type'', ''result'', ''attempted_at'']),
      (''foundation_account_verified_user_details'',
         [''user_id'', ''verification_level'', ''verified_date'', ''country'', ''active''])]"
  by code_simp

lemma column_exists_names:
  "column_exists tbls tn cn =
     list_ex (\<lambda>(n, cs). n = tn \<and> cn \<in> set cs)
       (map (\<lambda>t. (TableSchema_ts.table_name t,
                   map ColumnSchema_ts.name (TableSchema_ts.columns t))) tbls)"
  by (induction tbls) (auto simp: column_exists_def list_ex_iff)

section \<open>Relationship soundness\<close>

text \<open>
  Claim C1. Every relationship that \<^verbatim>\<open>discover_relationships\<close> returns, for any list of
  tables, is of type \<^verbatim>\<open>linked_by_id\<close>, joins two tables of different canonical ids, and
  names a column of the source table and a column of the target table whose names are
  equal and contain \<^verbatim>\<open>id\<close>.
\<close>

theorem relationship_soundness:
  assumes "r \<in> set (snd (discover_relationships tbls))"
  shows "relationship_type r = ''linked_by_id'' \<and> source_table r \<noteq> target_table r \<and>
    (\<exists>src\<in>set tbls. \<exists>col\<in>set (columns src). \<exists>tgt\<in>set tbls. \<exists>target_col\<in>set (columns tgt).
       source_table r = TableSchema.canonical_id src \<and>
       source_column r = ColumnSchema.canonical_id col \<and>
       target_table r = TableSchema.canonical_id tgt \<and>
       target_column r = ColumnSchema.canonical_id target_col \<and>
       ColumnSchema.name col = ColumnSchema.name target_col \<and>
       sublist ''id'' (ColumnSchema.name col))"
proof -
  from assms obtain src col tgt target_col where
    r: "r = link src col tgt target_col" and
    mem: "src \<in> set tbls" "col \<in> set (columns src)" "tgt \<in> set tbls" "target_col \<in> set (columns tgt)" and
    ne: "TableSchema.canonical_id src \<noteq> TableSchema.canonical_id tgt" and
    l: "linked col target_col"
    unfolding set_discover_relationships by blast
  from l have "ColumnSchema.name col = ColumnSchema.name target_col" "sublist ''id'' (ColumnSchema.name col)"
    by (auto simp: linked_def str_in_sublist)
  then have "\<exists>target_col\<in>set (columns tgt).
       source_table r = TableSchema.canonical_id src \<and>
       source_column r = ColumnSchema.canonical_id col \<and>
       target_table r = TableSchema.canonical_id tgt \<and>
       target_column r = ColumnSchema.canonical_id target_col \<and>
       ColumnSchema.name col = ColumnSchema.name target_col \<and>
       sublist ''id'' (ColumnSchema.name col)"
    using mem(4) by (intro bexI [of _ target_col]) (simp_all add: r link_def)
  then have "\<exists>src\<in>set tbls. \<exists>col\<in>set (columns src). \<exists>tgt\<in>set tbls. \<exists>target_col\<in>set (columns tgt).
       source_table r = TableSchema.canonical_id src \<and>
       source_column r = ColumnSchema.canonical_id col \<and>
       target_table r = TableSchema.canonical_id tgt \<and>
       target_column r = ColumnSchema.canonical_id target_col \<and>
       ColumnSchema.name col = ColumnSchema.name target_col \<and>
       sublist ''id'' (ColumnSchema.name col)"
    using mem(1,2,3) by blast
  moreover have "relationship_type r = ''linked_by_id''" "source_table r \<noteq> target_table r"
    using ne by (simp_all add: r link_def)
  ultimately show ?thesis
    by blast
qed

theorem relationship_soundness_witness:
  "\<lparr>source_table = ''deposits'', source_column = ''deposits.user_id'',
     target_table = ''verified_user_details'',
     target_column = ''verified_user_details.user_id'',
     relationship_type = ''linked_by_id'',
     description = ''Auto-detected link via user_id''\<rparr>
     \<in> set (snd (discover_relationships fixture_tables)) \<and>
   (\<exists>src\<in>set fixture_tables. \<exists>col\<in>set (columns src).
      \<exists>tgt\<in>set fixture_tables. \<exists>target_col\<in>set (columns tgt).
       ''deposits'' = TableSchema.canonical_id src \<and>
       ''deposits.user_id'' = ColumnSchema.canonical_id col \<and>
       ''verified_user_details'' = TableSchema.canonical_id tgt \<and>
       ''verified_user_details.user_id'' = ColumnSchema.canonical_id target_col \<and>
       ColumnSchema.name col = ColumnSchema.name target_col \<and>
       sublist ''id'' (ColumnSchema.name col))"
proof -
  let ?r = "\<lparr>source_table = ''deposits'', source_column = ''deposits.user_id'',
     target_table = ''verified_user_details'',
     target_column = ''verified_user_details.user_id'',
     relationship_type = ''linked_by_id'',
     description = ''Auto-detected link via user_id''\<rparr>"
  have mem: "?r \<in> set (snd (discover_relationships fixture_tables))"
    by (simp add: fixture_relationships)
  from relationship_soundness [OF mem] mem show ?thesis
    by simp
qed

section \<open>Symmetric edges\<close>

text \<open>
  Two different tables that share a canonical id, the \<^verbatim>\<open>RAW\<close> and the \<^verbatim>\<open>ENRICHED\<close>
  variant of \<^verbatim>\<open>deposits\<close>, each with a column \<^verbatim>\<open>user_id\<close>: the pair is skipped and no
  edge is returned.
\<close>

theorem symmetric_edges_same_id_counterexample:
  "deposits_table \<noteq> deposits_enriched_table \<and>
   ColumnSchema.name (hd (columns deposits_table)) =
     ColumnSchema.name (hd (columns deposits_enriched_table)) \<and>
   sublist ''id'' (ColumnSchema.name (hd (columns deposits_table))) \<and>
   snd (discover_relationships [deposits_table, deposits_enriched_table]) = []"
proof -
  have "sublist ''id'' ''user_id''"
    by (simp add: sublist_eval)
  then show ?thesis
    unfolding same_id_relationships
    by (simp add: deposits_table_def deposits_enriched_table_def)
qed

text \<open>
  Claim C7, as amended. \<^verbatim>\<open>discover_relationships\<close> keeps both directions of a match: for
  two tables \<open>A\<close> and \<open>B\<close> of the input, and a column of each with the same name containing
  \<^verbatim>\<open>id\<close>, if the canonical ids of \<open>A\<close> and \<open>B\<close> differ then the returned list holds two
  different edges, one from \<open>A\<close> to \<open>B\<close> and one from \<open>B\<close> to \<open>A\<close>, both of type
  \<^verbatim>\<open>linked_by_id\<close>; if \<open>A\<close> and \<open>B\<close> have the same canonical id, the returned list holds
  no edge from \<open>A\<close> to \<open>B\<close>.
\<close>

theorem symmetric_edges_kept:
  assumes "A \<in> set tbls" and "B \<in> set tbls"
    and "a \<in> set (columns A)" and "b \<in> set (columns B)"
    and "ColumnSchema.name a = ColumnSchema.name b"
    and "sublist ''id'' (ColumnSchema.name a)"
  shows "if TableSchema.canonical_id A \<noteq> TableSchema.canonical_id B
         then \<exists>r1\<in>set (snd (discover_relationships tbls)).
              \<exists>r2\<in>set (snd (discover_relationships tbls)).
                r1 \<noteq> r2 \<and>
                source_table r1 = TableSchema.canonical_id A \<and>
                source_column r1 = ColumnSchema.canonical_id a \<and>
                target_table r1 = TableSchema.canonical_id B \<and>
                target_column r1 = ColumnSchema.canonical_id b \<and>
                relationship_type r1 = ''linked_by_id'' \<and>
                source_table r2 = TableSchema.canonical_id B \<and>
                source_column r2 = ColumnSchema.canonical_id b \<and>
                target_table r2 = TableSchema.canonical_id A \<and>
                target_column r2 = ColumnSchema.canonical_id a \<and>
                relationship_type r2 = ''linked_by_id''
         else \<not> (\<exists>r\<in>set (snd (discover_relationships tbls)).
                source_table r = TableSchema.canonical_id A \<and>
                target_table r = TableSchema.canonical_id B)"
proof (cases "TableSchema.canonical_id A = TableSchema.canonical_id B")
  case True
  have "\<forall>r\<in>set (snd (discover_relationships tbls)). source_table r \<noteq> target_table r"
    unfolding set_discover_relationships by (auto simp: link_sel)
  with True show ?thesis
    by auto
next
  case False
  have ab: "linked a b" and ba: "linked b a"
    using assms(5,6) by (simp_all add: linked_def str_in_sublist)
  have r1: "link A a B b \<in> set (snd (discover_relationships tbls))"
    unfolding set_discover_relationships using assms(1-4) False ab by blast
  have r2: "link B b A a \<in> set (snd (discover_relationships tbls))"
    unfolding set_discover_relationships using assms(1-4) False ba by fastforce
  have ne: "link A a B b \<noteq> link B b A a"
  proof
    assume "link A a B b = link B b A a"
    then have "source_table (link A a B b) = source_table (link B b A a)"
      by simp
    with False show False
      by (simp add: link_sel)
  qed
  have "\<exists>r1\<in>set (snd (discover_relationships tbls)).
        \<exists>r2\<in>set (snd (discover_relationships tbls)).
          r1 \<noteq> r2 \<and>
          source_table r1 = TableSchema.canonical_id A \<and>
          source_column r1 = ColumnSchema.canonical_id a \<and>
          target_table r1 = TableSchema.canonical_id B \<and>
          target_column r1 = ColumnSchema.canonical_id b \<and>
          relationship_type r1 = ''linked_by_id'' \<and>
          source_table r2 = TableSchema.canonical_id B \<and>
          source_column r2 = ColumnSchema.canonical_id b \<and>
          target_table r2 = TableSchema.canonical_id A \<and>
          target_column r2 = ColumnSchema.canonical_id a \<and>
          relationship_type r2 = ''linked_by_id''"
    by (rule bexI [OF _ r1], rule bexI [OF _ r2]) (simp add: ne link_sel)
  with False show ?thesis
    by simp
qed

theorem symmetric_edges_kept_witness:
  "(\<exists>r1\<in>set (snd (discover_relationships fixture_tables)).
    \<exists>r2\<in>set (snd (discover_relationships fixture_tables)).
      r1 \<noteq> r2 \<and>
      source_table r1 = ''deposits'' \<and> source_column r1 = ''deposits.user_id'' \<and>
      target_table r1 = ''verified_user_details'' \<and>
      target_column r1 = ''verified_user_details.user_id'' \<and>
      relationship_type r1 = ''linked_by_id'' \<and>
      source_table r2 = ''verified_user_details'' \<and>
      source_column r2 = ''verified_user_details.user_id'' \<and>
      target_table r2 = ''deposits'' \<and> target_column r2 = ''deposits.user_id'' \<and>
      relationship_type r2 = ''linked_by_id'') \<and>
   length (snd (discover_relationships fixture_tables)) = 2"
proof -
  have "deposits_table \<in> set fixture_tables" "verified_user_details_table \<in> set fixture_tables"
    "hd (columns deposits_table) \<in> set (columns deposits_table)"
    "hd (columns verified_user_details_table) \<in> set (columns verified_user_details_table)"
    "ColumnSchema.name (hd (columns deposits_table)) =
       ColumnSchema.name (hd (columns verified_user_details_table))"
    "sublist ''id'' (ColumnSchema.name (hd (columns deposits_table)))"
    by (simp_all add: fixture_tables_def deposits_table_def verified_user_details_table_def
        flip: str_in_sublist)
  from symmetric_edges_kept [OF this] show ?thesis
    by (simp add: deposits_table_def verified_user_details_table_def fixture_relationships)
qed

section \<open>The frame of relationship discovery\<close>

text \<open>
  Claim C10. After \<^verbatim>\<open>discover_relationships\<close> the list of tables has the same
  tables in the same order; each table differs from the one before the call in its
  columns at most, and each column in its \<^verbatim>\<open>is_foreign_key\<close> flag at most. A flag that
  was set stays set, and a flag that the call sets belongs to a column that matches a
  column of a table with another canonical id (equal names containing \<^verbatim>\<open>id\<close>). On an
  input of at most one table the call returns no relationship and changes nothing.
\<close>

theorem discover_relationships_frame:
  "list_all2
     (\<lambda>t t'. t' = t\<lparr>columns := columns t'\<rparr> \<and>
        list_all2
          (\<lambda>c c'. c' = c\<lparr>is_foreign_key := is_foreign_key c'\<rparr> \<and>
             (is_foreign_key c \<longrightarrow> is_foreign_key c') \<and>
             (is_foreign_key c' \<and> \<not> is_foreign_key c \<longrightarrow>
                (\<exists>tgt\<in>set tbls. TableSchema.canonical_id t \<noteq> TableSchema.canonical_id tgt \<and>
                   (\<exists>target_col\<in>set (columns tgt).
                      ColumnSchema.name c = ColumnSchema.name target_col \<and>
                      sublist ''id'' (ColumnSchema.name c)))))
          (columns t) (columns t'))
     tbls (fst (discover_relationships tbls)) \<and>
   (length tbls \<le> 1 \<longrightarrow>
      snd (discover_relationships tbls) = [] \<and> fst (discover_relationships tbls) = tbls)"
proof -
  have cols: "list_all2
          (\<lambda>c c'. c' = c\<lparr>is_foreign_key := is_foreign_key c'\<rparr> \<and>
             (is_foreign_key c \<longrightarrow> is_foreign_key c') \<and>
             (is_foreign_key c' \<and> \<not> is_foreign_key c \<longrightarrow>
                (\<exists>tgt\<in>set tbls. TableSchema.canonical_id t \<noteq> TableSchema.canonical_id tgt \<and>
                   (\<exists>target_col\<in>set (columns tgt).
                      ColumnSchema.name c = ColumnSchema.name target_col \<and>
                      sublist ''id'' (ColumnSchema.name c)))))
          cs (map (\<lambda>col. col\<lparr>is_foreign_key := is_foreign_key col \<or> col_matched t col tbls\<rparr>) cs)"
    for t cs
    by (induction cs) (auto simp: col_matched_def linked_def str_in_sublist)
  have tabs: "list_all2
     (\<lambda>t t'. t' = t\<lparr>columns := columns t'\<rparr> \<and>
        list_all2
          (\<lambda>c c'. c' = c\<lparr>is_foreign_key := is_foreign_key c'\<rparr> \<and>
             (is_foreign_key c \<longrightarrow> is_foreign_key c') \<and>
             (is_foreign_key c' \<and> \<not> is_foreign_key c \<longrightarrow>
                (\<exists>tgt\<in>set tbls. TableSchema.canonical_id t \<noteq> TableSchema.canonical_id tgt \<and>
                   (\<exists>target_col\<in>set (columns tgt).
                      ColumnSchema.name c = ColumnSchema.name target_col \<and>
                      sublist ''id'' (ColumnSchema.name c)))))
          (columns t) (columns t'))
     ts (map (flagged tbls) ts)" for ts
    unfolding list_all2_map2 list_all2_same
    using cols by (simp add: flagged_def)
  have small: "snd (discover_relationships tbls) = [] \<and> fst (discover_relationships tbls) = tbls"
    if "length tbls \<le> 1"
  proof (cases tbls)
    case Nil
    then show ?thesis by (simp add: discover_relationships_def)
  next
    case (Cons t rest)
    with that have "tbls = [t]" by simp
    then show ?thesis
      by (simp add: discover_relationships_eq flagged_def table_links_def)
  qed
  show ?thesis
    using tabs [of tbls] small by (simp add: fst_discover_relationships)
qed

theorem discover_relationships_frame_witness:
  "length [deposits_table] \<le> 1 \<and>
   snd (discover_relationships [deposits_table]) = [] \<and>
   fst (discover_relationships [deposits_table]) = [deposits_table] \<and>
   map (\<lambda>t. map is_foreign_key (columns t)) fixture_tables = [[False, False], [False, False]] \<and>
   map (\<lambda>t. map is_foreign_key (columns t)) (fst (discover_relationships fixture_tables)) =
     [[True, False], [True, False]] \<and>
   list_all2 (\<lambda>t t'. t' = t\<lparr>columns := columns t'\<rparr> \<and>
       list_all2 (\<lambda>c c'. c' = c\<lparr>is_foreign_key := is_foreign_key c'\<rparr>) (columns t) (columns t'))
     fixture_tables (fst (discover_relationships fixture_tables))"
proof -
  have one: "length [deposits_table] \<le> 1"
    by simp
  with discover_relationships_frame [of "[deposits_table]"]
  have single: "snd (discover_relationships [deposits_table]) = [] \<and>
      fst (discover_relationships [deposits_table]) = [deposits_table]"
    by blast
  have before: "map (\<lambda>t. map is_foreign_key (columns t)) fixture_tables =
      [[False, False], [False, False]]"
    by (simp add: fixture_tables_def deposits_table_def verified_user_details_table_def)
  from discover_relationships_frame [of fixture_tables]
  have "list_all2 (\<lambda>t t'. t' = t\<lparr>columns := columns t'\<rparr> \<and>
       list_all2 (\<lambda>c c'. c' = c\<lparr>is_foreign_key := is_foreign_key c'\<rparr>) (columns t) (columns t'))
     fixture_tables (fst (discover_relationships fixture_tables))"
    by (auto elim!: list_all2_mono)
  with one single before fixture_flags show ?thesis
    by blast
qed

section \<open>The primary-key heuristic\<close>

text \<open>
  The builder flags a column as primary key by two substring tests on its name. The name
  \<^verbatim>\<open>deposit_id\<close> does not contain the table name \<^verbatim>\<open>deposits\<close>: on the rows of the
  table \<^verbatim>\<open>deposits\<close> neither \<^verbatim>\<open>deposit_id\<close> nor \<^verbatim>\<open>user_id\<close> is flagged.
\<close>

theorem primary_key_deposit_id_counterexample:
  "map (\<lambda>t. (table_name t, map (\<lambda>c. (ColumnSchema.name c, is_primary_key c)) (columns t)))
       (tables (process_csv_files [deposits_rows])) =
     [(''deposits'', [(''deposit_id'', False), (''user_id'', False)])]"
  by (simp add: deposits_rows_tables)

text \<open>
  Claim C2, as amended. A column that the graph builder constructs is flagged
  \<^verbatim>\<open>is_primary_key\<close> exactly when its canonical name contains \<^verbatim>\<open>id\<close> and contains
  the canonical name of its table as a substring. On the table \<^verbatim>\<open>deposits\<close> a column
  \<^verbatim>\<open>deposits_id\<close> is flagged; \<^verbatim>\<open>deposit_id\<close> and \<^verbatim>\<open>user_id\<close> are not.
\<close>

theorem primary_key_heuristic:
  assumes "t \<in> set (tables (process_csv_files files))" and "c \<in> set (columns t)"
  shows "is_primary_key c \<longleftrightarrow>
     sublist ''id'' (ColumnSchema.name c) \<and> sublist (table_name t) (ColumnSchema.name c)"
  using built_primary_key [OF assms] by (simp add: str_in_sublist)

theorem primary_key_heuristic_witness:
  "map (\<lambda>t. (table_name t, map (\<lambda>c. (ColumnSchema.name c, is_primary_key c)) (columns t)))
       (tables (process_csv_files [deposits_id_rows])) =
     [(''deposits'', [(''deposits_id'', True)])] \<and>
   sublist ''id'' ''deposits_id'' \<and> sublist ''deposits'' ''deposits_id'' \<and>
   \<not> sublist ''deposits'' ''deposit_id''"
proof -
  let ?t = "hd (tables (process_csv_files [deposits_id_rows]))"
  let ?c = "hd (columns ?t)"
  have t: "?t \<in> set (tables (process_csv_files [deposits_id_rows]))"
    and c: "?c \<in> set (columns ?t)"
    by (simp_all add: deposits_id_rows_tables)
  have "\<not> sublist ''deposits'' ''deposit_id''"
    by (simp add: sublist_eval)
  with primary_key_heuristic [OF t c] show ?thesis
    by (simp add: deposits_id_rows_tables)
qed

section \<open>Table types\<close>

text \<open>
  Claim C8. \<^verbatim>\<open>get_table_type\<close> of TestSchema.py returns \<^verbatim>\<open>ENRICHED\<close> exactly when the name
  in lower case contains the marker \<^verbatim>\<open>_enriched\<close>, and \<^verbatim>\<open>RAW\<close> otherwise. The graph builder
  of data_dictionaries_schema.py does not classify that way: it tests the physical name
  as it is written, so the table of a row keyed
  \<^verbatim>\<open>FOUNDATION.FINANCIAL.DEPOSITS_ENRICHED_V1.USER_ID\<close> is \<^verbatim>\<open>RAW\<close>, where \<^verbatim>\<open>get_table_type\<close>
  says \<^verbatim>\<open>ENRICHED\<close> for the same physical name; and it tests only the first physical name
  recorded for a canonical name, so the rows of
  \<^verbatim>\<open>foundation.financial.deposits_enriched_v1\<close> that follow rows of
  \<^verbatim>\<open>foundation.account.deposits_v4\<close> land in a table of type \<^verbatim>\<open>RAW\<close>.
\<close>

theorem table_type_builder_diverges:
  "get_table_type n = (if sublist ''_enriched'' (lower n) then ''ENRICHED'' else ''RAW'') \<and>
   map (\<lambda>t. (physical_name t, table_type t, get_table_type (physical_name t)))
     (tables (process_csv_files [upper_case_rows])) =
     [(''FOUNDATION.FINANCIAL.DEPOSITS_ENRICHED_V1'', ''RAW'', ''ENRICHED'')] \<and>
   map (\<lambda>t. (physical_name t, table_type t)) (tables (process_csv_files [merged_rows])) =
     [(''foundation.account.deposits_v4'', ''RAW'')] \<and>
   get_table_type ''foundation.financial.deposits_enriched_v1'' = ''ENRICHED''"
proof -
  have "get_table_type n = (if sublist ''_enriched'' (lower n) then ''ENRICHED'' else ''RAW'')"
    by (simp add: get_table_type_def str_in_sublist)
  moreover have
    "map (\<lambda>t. (physical_name t, table_type t, get_table_type (physical_name t)))
       (tables (process_csv_files [upper_case_rows])) =
       [(''FOUNDATION.FINANCIAL.DEPOSITS_ENRICHED_V1'', ''RAW'', ''ENRICHED'')]"
    by (simp add: upper_case_rows_tables sibling_classification)
  moreover have
    "map (\<lambda>t. (physical_name t, table_type t)) (tables (process_csv_files [merged_rows])) =
       [(''foundation.account.deposits_v4'', ''RAW'')]"
    by (simp add: merged_rows_tables)
  ultimately show ?thesis
    by (simp only: sibling_classification simp_thms)
qed

section \<open>Domains\<close>

text \<open>
  Claim C9. \<^verbatim>\<open>assign_domain\<close> of TestSchema.py checks the name in lower case for
  \<^verbatim>\<open>financial\<close>, then for \<^verbatim>\<open>account\<close>; the first keyword found decides, and a name with
  neither gets \<^verbatim>\<open>General\<close>. The graph builder of data_dictionaries_schema.py does not
  assign domains that way: a physical name without any keyword gets \<^verbatim>\<open>Account\<close>, not
  \<^verbatim>\<open>General\<close>; a physical name written in upper case with \<^verbatim>\<open>FINANCIAL\<close> gets
  \<^verbatim>\<open>Account\<close>, not \<^verbatim>\<open>Finance\<close>; and only the first physical name recorded for a
  canonical name is tested.
\<close>

theorem domain_builder_diverges:
  "assign_domain n =
     (if sublist ''financial'' (lower n) then ''Finance''
      else if sublist ''account'' (lower n) then ''Account''
      else ''General'') \<and>
   map (\<lambda>t. (physical_name t, domain t, assign_domain (physical_name t)))
     (tables (process_csv_files [sportsbook_rows])) =
     [(''foundation.sportsbook.bets_v1'', ''Account'', ''General'')] \<and>
   map (\<lambda>t. (physical_name t, domain t, assign_domain (physical_name t)))
     (tables (process_csv_files [upper_case_rows])) =
     [(''FOUNDATION.FINANCIAL.DEPOSITS_ENRICHED_V1'', ''Account'', ''Finance'')] \<and>
   map (\<lambda>t. (physical_name t, domain t)) (tables (process_csv_files [merged_rows])) =
     [(''foundation.account.deposits_v4'', ''Account'')] \<and>
   assign_domain ''foundation.financial.deposits_enriched_v1'' = ''Finance''"
proof -
  have "assign_domain n =
     (if sublist ''financial'' (lower n) then ''Finance''
      else if sublist ''account'' (lower n) then ''Account''
      else ''General'')"
    by (simp add: assign_domain_def str_in_sublist)
  moreover have
    "map (\<lambda>t. (physical_name t, domain t, assign_domain (physical_name t)))
       (tables (process_csv_files [sportsbook_rows])) =
       [(''foundation.sportsbook.bets_v1'', ''Account'', ''General'')]"
    by (simp add: sportsbook_rows_tables sibling_classification)
  moreover have
    "map (\<lambda>t. (physical_name t, domain t, assign_domain (physical_name t)))
       (tables (process_csv_files [upper_case_rows])) =
       [(''FOUNDATION.FINANCIAL.DEPOSITS_ENRICHED_V1'', ''Account'', ''Finance'')]"
    by (simp add: upper_case_rows_tables sibling_classification)
  moreover have
    "map (\<lambda>t. (physical_name t, domain t)) (tables (process_csv_files [merged_rows])) =
       [(''foundation.account.deposits_v4'', ''Account'')]"
    by (simp add: merged_rows_tables)
  ultimately show ?thesis
    by (simp only: sibling_classification simp_thms)
qed

section \<open>Key aliases of the model output\<close>

text \<open>
  \<^verbatim>\<open>governanceMarkdown\<close> is not among the aliases of \<^verbatim>\<open>governance_doc_markdown\<close> in
  \<^verbatim>\<open>key_map\<close>: on the response of the claim \<^verbatim>\<open>normalize_model_output\<close> raises.
\<close>

theorem model_output_alias_counterexample:
  "normalize_model_output
     [''governanceMarkdown'' \<mapsto> JString ''X'', ''addedTerms'' \<mapsto> JArray [JString ''a'']]
     ''deposits'' =
   Inl (RuntimeError ''Missing governance_doc_markdown in model output for table deposits'')"
  by (simp add: normalize_model_output_def collect_alias_example)

text \<open>
  Claim C3, as amended. Given the raw response
  \<^verbatim>\<open>{"governanceDocMarkdown": "X", "addedTerms": ["a"]}\<close>, \<^verbatim>\<open>normalize_model_output\<close>
  returns the three canonical keys, with the default \<^verbatim>\<open># No delta required\<close> for the
  delta; given \<^verbatim>\<open>{"governanceMarkdown": "X", "addedTerms": ["a"]}\<close> it raises the
  \<^verbatim>\<open>RuntimeError\<close> that names the table.
\<close>

theorem model_output_aliases:
  "normalize_model_output
     [''governanceDocMarkdown'' \<mapsto> JString ''X'', ''addedTerms'' \<mapsto> JArray [JString ''a'']]
     tbl =
   Inr [''governance_doc_markdown'' \<mapsto> JString ''X'',
        ''delta_ontology_ttl'' \<mapsto> JString ''# No delta required'',
        ''new_terms'' \<mapsto> JArray [JString ''a'']] \<and>
   normalize_model_output
     [''governanceMarkdown'' \<mapsto> JString ''X'', ''addedTerms'' \<mapsto> JArray [JString ''a'']]
     tbl =
   Inl (RuntimeError (''Missing governance_doc_markdown in model output for table '' @ tbl))"
proof -
  have order: "[''governance_doc_markdown'' \<mapsto> JString ''X'',
        ''new_terms'' \<mapsto> JArray [JString ''a''],
        ''delta_ontology_ttl'' \<mapsto> JString ''# No delta required''] =
     [''governance_doc_markdown'' \<mapsto> JString ''X'',
        ''delta_ontology_ttl'' \<mapsto> JString ''# No delta required'',
        ''new_terms'' \<mapsto> JArray [JString ''a'']]"
    by (rule ext) simp
  have "normalize_model_output
     [''governanceDocMarkdown'' \<mapsto> JString ''X'', ''addedTerms'' \<mapsto> JArray [JString ''a'']]
     tbl =
   Inr [''governance_doc_markdown'' \<mapsto> JString ''X'',
        ''new_terms'' \<mapsto> JArray [JString ''a''],
        ''delta_ontology_ttl'' \<mapsto> JString ''# No delta required'']"
    by (simp add: normalize_model_output_def collect_listed_alias_example blank_def strip_def
        is_space_def)
  moreover have "normalize_model_output
     [''governanceMarkdown'' \<mapsto> JString ''X'', ''addedTerms'' \<mapsto> JArray [JString ''a'']]
     tbl =
   Inl (RuntimeError (''Missing governance_doc_markdown in model output for table '' @ tbl))"
    by (simp add: normalize_model_output_def collect_alias_example)
  ultimately show ?thesis
    by (simp only: order simp_thms)
qed

section \<open>The curated relationships\<close>

text \<open>
  Claim C4 asks that every table and column a relationship refers to exists among the
  tables of the same graph. The graph of the builder satisfies this
  (\<open>built_references_exist\<close>). The graph of TestSchema.py does not: three of its six
  curated relationships name the source column \<^verbatim>\<open>account_id\<close> on tables whose columns, in
  the same file, have no such name; every target column exists.
\<close>

theorem curated_relationships_dangling:
  "map (\<lambda>r. (source_table r, source_column r))
     (filter (\<lambda>r. \<not> column_exists (MetadataSchema_ts.tables metadata_model)
                       (source_table r) (source_column r))
        (MetadataSchema_ts.relationships metadata_model)) =
     [(''foundation_financial_deposits'', ''account_id''),
      (''foundation_financial_withdrawals'', ''account_id''),
      (''foundation_financial_worldpay_transactions'', ''account_id'')] \<and>
   list_all (\<lambda>r. column_exists (MetadataSchema_ts.tables metadata_model)
                    (target_table r) (target_column r))
     (MetadataSchema_ts.relationships metadata_model)"
  by (simp add: metadata_model_def column_exists_names table_objects_columns relationships_ts_def)

section \<open>Properties of the table names\<close>

subsection \<open>Lower case\<close>

lemma map_of_zip_absent:
  "length ks = length vs \<Longrightarrow> k \<notin> set ks \<Longrightarrow> map_of (zip ks vs) k = None"
  by (auto simp: map_of_eq_None_iff dest: set_zip_leftD)

lemma map_of_zip_value:
  "map_of (zip ks vs) k = Some v \<Longrightarrow> v \<in> set vs"
  by (auto dest: map_of_SomeD set_zip_rightD)

lemma lower_char_not_upper: "\<not> is_upper c \<Longrightarrow> lower_char c = c"
  unfolding lower_char_def is_upper_def
  by (subst map_of_zip_absent) simp_all

lemma lower_char_upper: "is_upper c \<Longrightarrow> is_lower (lower_char c)"
  unfolding lower_char_def is_lower_def is_upper_def
  by (auto simp: map_of_zip_value split: option.splits)

lemma lower_not_upper: "is_lower c \<Longrightarrow> \<not> is_upper c"
  unfolding is_lower_def is_upper_def by auto

lemma lower_char_idem [simp]: "lower_char (lower_char c) = lower_char c"
  by (cases "is_upper c") (simp_all add: lower_char_not_upper lower_char_upper lower_not_upper)

lemma digit_not_upper: "is_digit c \<Longrightarrow> \<not> is_upper c"
  unfolding is_digit_def is_upper_def by auto

lemma lower_char_digit: "is_digit d \<Longrightarrow> lower_char d = d"
  by (simp add: lower_char_not_upper digit_not_upper)

lemma lower_char_eq_dot [simp]: "lower_char c = CHR ''.'' \<longleftrightarrow> c = CHR ''.''"
proof (cases "is_upper c")
  case True
  then have "is_lower (lower_char c)" by (rule lower_char_upper)
  then have "lower_char c \<noteq> CHR ''.''"
    unfolding is_lower_def by auto
  moreover from True have "c \<noteq> CHR ''.''"
    unfolding is_upper_def by auto
  ultimately show ?thesis by simp
next
  case False
  then show ?thesis by (simp add: lower_char_not_upper)
qed

lemma lower_idem [simp]: "lower (lower s) = lower s"
  by (simp add: lower_def)

lemma lower_append [simp]: "lower (s @ t) = lower s @ lower t"
  by (simp add: lower_def)

lemma lower_fixed: "(\<forall>c\<in>set s. lower_char c = c) \<Longrightarrow> lower s = s"
  unfolding lower_def by (induction s) simp_all

lemma lower_digits: "list_all is_digit ds \<Longrightarrow> lower ds = ds"
  by (rule lower_fixed) (simp add: lower_char_digit list_all_iff)

lemma dot_eq_lower_char [simp]: "CHR ''.'' = lower_char c \<longleftrightarrow> c = CHR ''.''"
  by (metis lower_char_eq_dot)

lemma dot_in_lower [simp]: "CHR ''.'' \<in> set (lower s) \<longleftrightarrow> CHR ''.'' \<in> set s"
  by (induction s) (auto simp: lower_def)

subsection \<open>Substrings, replace and split on one character\<close>

lemma str_in_char [simp]: "str_in [c] s \<longleftrightarrow> c \<in> set s"
  by (induction s) auto

lemma replace_delete_char: "replace [q] [] s = filter (\<lambda>c. c \<noteq> q) s"
  by (induction s) auto

lemma replace_map_char: "replace [a] [b] s = map (\<lambda>c. if c = a then b else c) s"
  by (induction s) auto

lemma replace_absent: "\<not> sublist old s \<Longrightarrow> replace old new s = s"
proof (induction s)
  case Nil
  show ?case by simp
next
  case (Cons c cs)
  from Cons.prems have "\<not> prefix old (c # cs)" "\<not> sublist old cs"
    by (auto simp: sublist_Cons_right)
  with Cons.IH show ?case by simp
qed

lemma split_not_Nil [simp]: "split sep s \<noteq> []"
  by (induction s) (auto split: list.splits)

lemma split_absent: "sep \<notin> set s \<Longrightarrow> split sep s = [s]"
  by (induction s) auto

lemma length_split: "length (split sep s) = Suc (count_list s sep)"
  by (induction s) (auto split: list.splits)

lemma last_split_Cons:
  "last (split sep (c # cs)) =
     (if sep \<in> set cs \<or> c = sep then last (split sep cs) else c # cs)"
proof (cases "split sep cs")
  case Nil
  then show ?thesis by simp
next
  case (Cons w ws)
  show ?thesis
  proof (cases "sep \<in> set cs")
    case True
    then have "count_list cs sep \<noteq> 0"
      by (simp add: count_list_0_iff)
    with length_split [of sep cs] Cons have "ws \<noteq> []"
      by auto
    with Cons True show ?thesis by simp
  next
    case False
    then show ?thesis by (simp add: split_absent)
  qed
qed

lemma last_split_subset: "set (last (split sep s)) \<subseteq> set s - {sep}"
proof (induction s)
  case Nil
  show ?case by simp
next
  case (Cons c cs)
  then show ?case
    unfolding last_split_Cons by auto
qed

lemma last_split_append: "sep \<notin> set b \<Longrightarrow> last (split sep (a @ sep # b)) = b"
proof (induction a)
  case Nil
  then show ?case by (simp add: split_absent)
next
  case (Cons c cs)
  then show ?case
    unfolding append_Cons last_split_Cons by simp
qed

subsection \<open>A suffix that starts with an underscore\<close>

lemma dropWhile_append_stop:
  "\<not> P y \<Longrightarrow> dropWhile P (xs @ y # ys) = dropWhile P xs @ y # ys"
  by (induction xs) auto

lemma underscore_not_digit [simp]: "\<not> is_digit CHR ''_''"
  by (simp add: is_digit_def)

lemma version_suffix_append:
  assumes "s \<noteq> []"
  shows "version_suffix (s @ CHR ''_'' # t) =
     map_option (\<lambda>(out, rest). (out, rest @ CHR ''_'' # t)) (version_suffix s)"
proof -
  consider a where "s = [a]" | a b where "s = [a, b]"
    | a b d rest where "s = a # b # d # rest"
    using assms by (cases s rule: version_suffix.cases) auto
  then show ?thesis
  proof cases
    case 1
    then show ?thesis by (cases t) auto
  next
    case 2
    then show ?thesis by simp
  next
    case 3
    then show ?thesis by (simp add: dropWhile_append_stop)
  qed
qed

lemma version_suffix_shorter:
  "version_suffix s = Some (out, rest) \<Longrightarrow> out = [] \<and> length rest < length s \<and> set rest \<subseteq> set s"
proof (cases s rule: version_suffix.cases)
  case (1 a b d rest')
  assume "version_suffix s = Some (out, rest)"
  with 1 have "out = []" "rest = dropWhile is_digit rest'"
    by (auto split: if_splits)
  moreover have "length (dropWhile is_digit rest') \<le> length rest'"
    by (rule length_dropWhile_le)
  moreover have "set (dropWhile is_digit rest') \<subseteq> set rest'"
    by (rule set_dropWhileD [THEN subsetI])
  ultimately show ?thesis using 1 by auto
qed auto

lemma re_sub_version_append:
  "re_sub version_suffix (s @ CHR ''_'' # t) =
     re_sub version_suffix s @ re_sub version_suffix (CHR ''_'' # t)"
proof (induction s rule: length_induct)
  case (1 s)
  show ?case
  proof (cases s)
    case Nil
    then show ?thesis by simp
  next
    case (Cons c cs)
    show ?thesis
    proof (cases "version_suffix (c # cs)")
      case None
      with version_suffix_append [of "c # cs" t]
      have "version_suffix ((c # cs) @ CHR ''_'' # t) = None"
        by simp
      with None 1 Cons show ?thesis
        by (simp del: version_suffix.simps)
    next
      case (Some r)
      obtain out rest where r: "r = (out, rest)" by (cases r)
      from Some r have short: "length rest < length (c # cs)"
        using version_suffix_shorter by blast
      from Some r version_suffix_append [of "c # cs" t]
      have "version_suffix ((c # cs) @ CHR ''_'' # t) = Some (out, rest @ CHR ''_'' # t)"
        by simp
      moreover from 1 short Cons
      have "re_sub version_suffix (rest @ CHR ''_'' # t) =
          re_sub version_suffix rest @ re_sub version_suffix (CHR ''_'' # t)"
        by simp
      ultimately show ?thesis
        using Some r short Cons by (simp del: version_suffix.simps)
    qed
  qed
qed

lemma set_re_sub_version: "set (re_sub version_suffix s) \<subseteq> set s"
proof (induction s rule: length_induct)
  case (1 s)
  show ?case
  proof (cases s)
    case Nil
    then show ?thesis by simp
  next
    case (Cons c cs)
    show ?thesis
    proof (cases "version_suffix (c # cs)")
      case None
      with 1 Cons show ?thesis
        by (auto simp del: version_suffix.simps)
    next
      case (Some r)
      obtain out rest where r: "r = (out, rest)" by (cases r)
      from Some r have short: "out = []" "length rest < length (c # cs)" "set rest \<subseteq> set (c # cs)"
        using version_suffix_shorter by blast+
      with 1 Cons have "set (re_sub version_suffix rest) \<subseteq> set rest"
        by simp
      with Some r short Cons show ?thesis
        by (auto simp del: version_suffix.simps)
    qed
  qed
qed

lemma prefix_append_stop:
  assumes "y \<notin> set (tl old)" and "s \<noteq> []"
  shows "prefix old (s @ y # t) \<longleftrightarrow> prefix old s"
proof
  assume "prefix old (s @ y # t)"
  then consider "prefix old s" | us where "old = s @ us" "prefix us (y # t)"
    by (auto simp: prefix_append)
  then show "prefix old s"
  proof cases
    case 1
    then show ?thesis .
  next
    case 2
    show ?thesis
    proof (cases us)
      case Nil
      with 2 show ?thesis by simp
    next
      case (Cons u us')
      with 2 have "u = y" by simp
      with 2(1) Cons assms(2) have "y \<in> set (tl old)"
        by (cases s) auto
      with assms(1) show ?thesis by simp
    qed
  qed
next
  assume "prefix old s"
  then show "prefix old (s @ y # t)"
    by (rule prefix_prefix)
qed

lemma replace_append_stop:
  assumes "y \<notin> set (tl old)"
  shows "replace old new (s @ y # t) = replace old new s @ replace old new (y # t)"
proof (induction s rule: length_induct)
  case (1 s)
  show ?case
  proof (cases s)
    case Nil
    then show ?thesis by simp
  next
    case (Cons c cs)
    have pre: "prefix old ((c # cs) @ y # t) \<longleftrightarrow> prefix old (c # cs)"
      using assms by (rule prefix_append_stop) simp
    show ?thesis
    proof (cases "old \<noteq> [] \<and> prefix old (c # cs)")
      case True
      then have le: "length old \<le> length (c # cs)" and pos: "0 < length old"
        by (auto dest: prefix_length_le)
      then have "length (drop (length old) (c # cs)) < length s"
        using Cons by simp
      with 1 have "replace old new (drop (length old) (c # cs) @ y # t) =
          replace old new (drop (length old) (c # cs)) @ replace old new (y # t)"
        by blast
      moreover have "drop (length old) ((c # cs) @ y # t) = drop (length old) (c # cs) @ y # t"
        unfolding drop_append using le by simp
      moreover have "replace old new ((c # cs) @ y # t) =
          new @ replace old new (drop (length old) ((c # cs) @ y # t))"
        using True pre by (simp del: drop_Suc_Cons)
      moreover have "replace old new (c # cs) = new @ replace old new (drop (length old) (c # cs))"
        using True by (simp del: drop_Suc_Cons)
      ultimately show ?thesis
        using Cons by simp
    next
      case False
      with pre have "replace old new ((c # cs) @ y # t) = c # replace old new (cs @ y # t)"
        by auto
      moreover from False have "replace old new (c # cs) = c # replace old new cs"
        by auto
      moreover from 1 Cons have "replace old new (cs @ y # t) =
          replace old new cs @ replace old new (y # t)"
        by simp
      ultimately show ?thesis
        using Cons by simp
    qed
  qed
qed

lemma set_replace_delete: "set (replace old [] s) \<subseteq> set s"
proof (induction s rule: length_induct)
  case (1 s)
  show ?case
  proof (cases s)
    case Nil
    then show ?thesis by simp
  next
    case (Cons c cs)
    show ?thesis
    proof (cases "old \<noteq> [] \<and> prefix old (c # cs)")
      case True
      then have "length (drop (length old) (c # cs)) < length s"
        using Cons by (cases old) auto
      with 1 have "set (replace old [] (drop (length old) (c # cs))) \<subseteq>
          set (drop (length old) (c # cs))"
        by blast
      also have "\<dots> \<subseteq> set (c # cs)"
        by (rule set_drop_subset)
      finally have "set (replace old [] (drop (length old) (c # cs))) \<subseteq> set (c # cs)" .
      moreover have "replace old [] (c # cs) = replace old [] (drop (length old) (c # cs))"
        using True by (simp del: drop_Suc_Cons)
      ultimately show ?thesis
        using Cons by simp
    next
      case False
      then have "replace old [] (c # cs) = c # replace old [] cs"
        by auto
      moreover from 1 Cons have "set (replace old [] cs) \<subseteq> set cs"
        by simp
      ultimately show ?thesis
        using Cons by auto
    qed
  qed
qed

subsection \<open>The table names of TestSchema.py\<close>

lemma re_sub_version_digits:
  assumes "ds \<noteq> []" and "list_all is_digit ds"
  shows "re_sub version_suffix (CHR ''_'' # CHR ''v'' # ds) = []"
proof -
  from assms obtain d ds' where ds: "ds = d # ds'" "is_digit d" "list_all is_digit ds'"
    by (cases ds) auto
  then have dw: "dropWhile is_digit ds' = []"
    by (simp add: list_all_iff)
  show ?thesis
    unfolding ds(1) by (simp add: ds(2) dw)
qed

lemma re_sub_version_enriched: "re_sub version_suffix ''_enriched'' = ''_enriched''"
  by (simp add: is_digit_def)

lemma lower_literals:
  "lower ''_v'' = ''_v''" "lower ''_enriched'' = ''_enriched''"
  by (simp_all add: lower_def lower_char_def)

lemma table_name_ts_version:
  assumes "ds \<noteq> []" and "list_all is_digit ds"
  shows "normalize_table_name_ts (x @ ''_v'' @ ds) = normalize_table_name_ts x"
proof -
  have "lower (x @ ''_v'' @ ds) = lower x @ lower ''_v'' @ lower ds"
    by (simp only: lower_append)
  then have "lower (x @ ''_v'' @ ds) = lower x @ CHR ''_'' # CHR ''v'' # ds"
    unfolding lower_literals lower_digits [OF assms(2)] by simp
  then have "re_sub version_suffix (lower (x @ ''_v'' @ ds)) = re_sub version_suffix (lower x)"
    using re_sub_version_digits [OF assms] by (simp add: re_sub_version_append)
  then show ?thesis
    by (simp add: normalize_table_name_ts_def)
qed

lemma table_name_ts_enriched:
  "normalize_table_name_ts (x @ ''_enriched'') = normalize_table_name_ts x"
proof -
  have "re_sub version_suffix (lower (x @ ''_enriched'')) =
      re_sub version_suffix (lower x) @ ''_enriched''"
    using re_sub_version_append [of "lower x" "''enriched''"]
    by (simp add: lower_literals re_sub_version_enriched)
  moreover have "replace ''_enriched'' [] (s @ ''_enriched'') = replace ''_enriched'' [] s" for s
    using replace_append_stop [of "CHR ''_''" "''_enriched''" "[]" s "''enriched''"]
    by simp
  ultimately show ?thesis
    by (simp add: normalize_table_name_ts_def)
qed

subsection \<open>The table names of data_dictionaries_schema.py\<close>

lemma match_target_range:
  "match_target nm ts = Some c \<Longrightarrow>
     c \<in> set (map (\<lambda>t. replace ''_enriched'' [] (replace ''_v1'' [] t)) ts)"
  by (induction ts) (auto split: if_splits)

lemma clean_targets_fixed:
  "list_all (\<lambda>c. normalize_table_name c = c)
     (map (\<lambda>t. replace ''_enriched'' [] (replace ''_v1'' [] t)) TARGET_TABLES)"
  by code_simp

text \<open>A name in lower case without quotes and dots is its own last segment.\<close>

lemma table_name_of_segment:
  assumes "\<forall>c\<in>set seg. lower_char c = c" and "CHR 0x22 \<notin> set seg" and "CHR ''.'' \<notin> set seg"
  shows "normalize_table_name seg =
     (case match_target seg TARGET_TABLES of Some c \<Rightarrow> c | None \<Rightarrow> seg)"
proof -
  have "lower seg = seg"
    using assms(1) by (rule lower_fixed)
  moreover have "replace [CHR 0x22] [] seg = seg"
    unfolding replace_delete_char using assms(2) by (auto simp: filter_id_conv)
  moreover have "replace ''.'' ''_'' seg = seg"
    unfolding replace_map_char using assms(3) by (intro map_idI) auto
  ultimately show ?thesis
    using assms(3) by (simp add: normalize_table_name_def split: option.splits)
qed

lemma table_name_idempotent:
  "normalize_table_name (normalize_table_name x) = normalize_table_name x"
proof -
  define nm0 where "nm0 = replace [CHR 0x22] [] (lower x)"
  define seg where "seg = (if str_in ''.'' nm0 then last (split CHR ''.'' nm0) else nm0)"
  have n: "normalize_table_name x =
      (case match_target seg TARGET_TABLES of Some c \<Rightarrow> c | None \<Rightarrow> replace ''.'' ''_'' seg)"
    by (simp add: normalize_table_name_def nm0_def seg_def Let_def split: option.splits)
  have nm0: "set nm0 \<subseteq> set (lower x) - {CHR 0x22}"
    unfolding nm0_def replace_delete_char by auto
  have seg: "set seg \<subseteq> set nm0 - {CHR ''.''}"
    unfolding seg_def using last_split_subset [of "CHR ''.''" nm0] by auto
  have a: "\<forall>c\<in>set seg. lower_char c = c"
    using nm0 seg by (auto simp: lower_def)
  have b: "CHR 0x22 \<notin> set seg"
    using nm0 seg by auto
  have c: "CHR ''.'' \<notin> set seg"
    using seg by auto
  have r: "replace ''.'' ''_'' seg = seg"
    unfolding replace_map_char using c by (intro map_idI) auto
  show ?thesis
  proof (cases "match_target seg TARGET_TABLES")
    case None
    with n r have "normalize_table_name x = seg"
      by simp
    moreover have "normalize_table_name seg = seg"
      using table_name_of_segment [OF a b c] None by simp
    ultimately show ?thesis
      by simp
  next
    case (Some t)
    with n have "normalize_table_name x = t"
      by simp
    moreover from Some
    have "t \<in> set (map (\<lambda>t. replace ''_enriched'' [] (replace ''_v1'' [] t)) TARGET_TABLES)"
      by (rule match_target_range)
    with clean_targets_fixed have "normalize_table_name t = t"
      unfolding list_all_iff by blast
    ultimately show ?thesis
      by simp
  qed
qed

subsection \<open>Evaluations\<close>

lemma table_name_ts_examples:
  "normalize_table_name_ts ''foundation.v2.deposits'' = ''foundation_v2_deposits''"
  "normalize_table_name_ts ''foundation_v2_deposits'' = ''foundation_deposits''"
  "normalize_table_name_ts ''foundation.financial.deposits_v4'' = ''foundation_financial_deposits''"
  "normalize_table_name_ts ''foundation.financial.deposits_enriched_v1'' =
     ''foundation_financial_deposits''"
  "normalize_table_name_ts ''foundation.financial.deposits'' = ''foundation_financial_deposits''"
  by code_simp+

lemma table_name_examples:
  "normalize_table_name ''foundation.financial.deposits_v4'' = ''deposits''"
  "normalize_table_name ''foundation.financial.deposits_enriched_v1'' = ''deposits''"
  "normalize_table_name ''foundation.financial.ledger_account_balances_v1'' =
     ''ledger_account_balances''"
  "normalize_table_name ''foundation.financial.ledger_account_balances_v2'' =
     ''ledger_account_balances_v2''"
  "normalize_table_name ''foundation.financial.ledger_lines_enriched_v1'' = ''ledger_lines''"
  "normalize_table_name ''foundation.financial.ledger_lines_v1'' = ''ledger_lines_v1''"
  "normalize_table_name ''deposits'' = ''deposits''"
  by code_simp+

section \<open>Idempotence of the table names\<close>

text \<open>
  Claim C5. \<^verbatim>\<open>normalize_table_name\<close> of data_dictionaries_schema.py is idempotent: for
  every \<open>x\<close>, applying it to its own output returns that output.
  \<^verbatim>\<open>normalize_table_name\<close> of TestSchema.py is not: it removes the version markers
  before it turns the dots into underscores, so \<^verbatim>\<open>foundation.v2.deposits\<close> becomes
  \<^verbatim>\<open>foundation_v2_deposits\<close>, which a second application turns into
  \<^verbatim>\<open>foundation_deposits\<close>.
\<close>

theorem table_name_idempotence_diverges:
  "normalize_table_name (normalize_table_name x) = normalize_table_name x \<and>
   normalize_table_name_ts ''foundation.v2.deposits'' = ''foundation_v2_deposits'' \<and>
   normalize_table_name_ts (normalize_table_name_ts ''foundation.v2.deposits'') =
     ''foundation_deposits''"
  by (simp add: table_name_idempotent table_name_ts_examples)

section \<open>Stability of the table names\<close>

text \<open>
  Claim C6. \<^verbatim>\<open>normalize_table_name\<close> of TestSchema.py is stable: a version suffix
  \<^verbatim>\<open>_v\<close> with digits and the suffix \<^verbatim>\<open>_enriched\<close> at the end of a name do not change
  the canonical name. Both functions give \<^verbatim>\<open>foundation.financial.deposits_v4\<close> and
  \<^verbatim>\<open>foundation.financial.deposits_enriched_v1\<close> one canonical name.
  \<^verbatim>\<open>normalize_table_name\<close> of data_dictionaries_schema.py is not stable: it strips the
  suffixes of the target tables it finds and of nothing else, so
  \<^verbatim>\<open>ledger_account_balances_v1\<close> and \<^verbatim>\<open>ledger_account_balances_v2\<close> get two canonical
  names, and so do \<^verbatim>\<open>ledger_lines_enriched_v1\<close> and \<^verbatim>\<open>ledger_lines_v1\<close>.
\<close>

theorem table_name_stability_diverges:
  "(ds \<noteq> [] \<and> list_all is_digit ds \<longrightarrow>
      normalize_table_name_ts (x @ ''_v'' @ ds) = normalize_table_name_ts x) \<and>
   normalize_table_name_ts (x @ ''_enriched'') = normalize_table_name_ts x \<and>
   normalize_table_name_ts ''foundation.financial.deposits_v4'' =
     normalize_table_name_ts ''foundation.financial.deposits_enriched_v1'' \<and>
   normalize_table_name ''foundation.financial.deposits_v4'' =
     normalize_table_name ''foundation.financial.deposits_enriched_v1'' \<and>
   normalize_table_name ''foundation.financial.ledger_account_balances_v1'' =
     ''ledger_account_balances'' \<and>
   normalize_table_name ''foundation.financial.ledger_account_balances_v2'' =
     ''ledger_account_balances_v2'' \<and>
   normalize_table_name ''foundation.financial.ledger_lines_enriched_v1'' = ''ledger_lines'' \<and>
   normalize_table_name ''foundation.financial.ledger_lines_v1'' = ''ledger_lines_v1''"
proof (intro conjI)
  show "ds \<noteq> [] \<and> list_all is_digit ds \<longrightarrow>
      normalize_table_name_ts (x @ ''_v'' @ ds) = normalize_table_name_ts x"
    using table_name_ts_version by blast
qed (simp_all only: table_name_ts_enriched table_name_ts_examples table_name_examples simp_thms)

theorem table_name_stability_diverges_witness:
  "''4'' \<noteq> [] \<and> list_all is_digit ''4'' \<and>
   normalize_table_name_ts (''foundation.financial.deposits'' @ ''_v'' @ ''4'') =
     normalize_table_name_ts ''foundation.financial.deposits'' \<and>
   normalize_table_name_ts (''foundation.financial.deposits'' @ ''_enriched'') =
     ''foundation_financial_deposits''"
proof -
  have d: "''4'' \<noteq> [] \<and> list_all is_digit ''4''"
    by (simp add: is_digit_def)
  from table_name_stability_diverges [of "''4''" "''foundation.financial.deposits''"] d
  show ?thesis
    by (simp only: table_name_ts_examples simp_thms)
qed

end
